theory Spec2Isabelle
  imports Main "HOL-Library.Word"
begin

section \<open>Python values, exceptions and strings\<close>

text \<open>
  The program is \<^verbatim>\<open>clip.py\<close>: a clipboard facade (class \<^verbatim>\<open>DroidrunClipboard\<close>) over two
  transports, the \<^verbatim>\<open>adb\<close> content provider and an HTTP socket server, and a command line
  front end.

  A Python \<^verbatim>\<open>str\<close> is a \<^typ>\<open>string\<close>, one \<^typ>\<open>char\<close> for each character of the text;
  the characters of HOL are the 256 characters below U+0100, and \<^verbatim>\<open>str.lower\<close> and
  \<^verbatim>\<open>str.strip\<close> are given below as Python has them on that range. The value of
  \<^verbatim>\<open>json.loads\<close> or \<^verbatim>\<open>response.json()\<close> is a \<open>pyval\<close>; a float is kept as the 64 bits
  of its IEEE representation.
\<close>

datatype pyval =
    PyNone
  | PyBool bool
  | PyInt int
  | PyFloat "64 word"
  | PyStr string
  | PyList "pyval list"
  | PyDict "(string \<times> pyval) list"

text \<open>
  A raised exception. \<open>Exception m\<close> is an instance of \<^verbatim>\<open>Exception\<close> (of any subclass)
  with \<^verbatim>\<open>str(e) = m\<close>; \<open>KeyboardInterrupt\<close> and \<open>BaseException m\<close> (\<^verbatim>\<open>SystemExit\<close>,
  \<^verbatim>\<open>GeneratorExit\<close>) are not caught by \<^verbatim>\<open>except Exception\<close>.
\<close>

datatype exn = Exception string | KeyboardInterrupt | BaseException string

definition backslash :: char where
  "backslash = CHR 0x5C"

definition quote :: char where
  "quote = CHR 0x27"

definition newline :: char where
  "newline = CHR 0x0A"

text \<open>\<^verbatim>\<open>str(n)\<close> for an integer: its decimal digits, with a minus sign when negative.\<close>

fun str_nat :: "nat \<Rightarrow> string" where
  "str_nat n =
     (if n < 10 then [''0123456789'' ! n]
      else str_nat (n div 10) @ [''0123456789'' ! (n mod 10)])"

definition str_int :: "int \<Rightarrow> string" where
  "str_int i = (if i < 0 then CHR ''-'' # str_nat (nat (- i)) else str_nat (nat i))"

text \<open>
  \<^verbatim>\<open>s.replace(old, new)\<close>: the occurrences of \<open>old\<close> are found from the left and do not
  overlap; an empty \<open>old\<close> matches before every character and at the end.
\<close>

fun replace_from :: "string \<Rightarrow> string \<Rightarrow> string \<Rightarrow> string" where
  "replace_from old new [] = []"
| "replace_from old new (c # cs) =
     (if old \<noteq> [] \<and> take (length old) (c # cs) = old
      then new @ replace_from old new (drop (length old) (c # cs))
      else c # replace_from old new cs)"

definition str_replace :: "string \<Rightarrow> string \<Rightarrow> string \<Rightarrow> string" where
  "str_replace old new s =
     (if old = [] then new @ concat (map (\<lambda>c. c # new) s) else replace_from old new s)"

text \<open>\<^verbatim>\<open>sub in s\<close>: \<open>sub\<close> occurs in \<open>s\<close> as a contiguous segment.\<close>

fun str_contains :: "string \<Rightarrow> string \<Rightarrow> bool" where
  "str_contains sub [] = (sub = [])"
| "str_contains sub (c # cs) = (take (length sub) (c # cs) = sub \<or> str_contains sub cs)"

text \<open>
  \<^verbatim>\<open>s.split(sep)\<close> for a non-empty separator (the program splits on literals only), and
  \<^verbatim>\<open>s.split(sep, 1)\<close>, which cuts at the leftmost occurrence only.
\<close>

fun str_split :: "string \<Rightarrow> string \<Rightarrow> string list" where
  "str_split sep [] = [[]]"
| "str_split sep (c # cs) =
     (if sep \<noteq> [] \<and> take (length sep) (c # cs) = sep
      then [] # str_split sep (drop (length sep) (c # cs))
      else (case str_split sep cs of
              [] \<Rightarrow> [[c]]
            | p # ps \<Rightarrow> (c # p) # ps))"

fun str_split1 :: "string \<Rightarrow> string \<Rightarrow> string list" where
  "str_split1 sep [] = [[]]"
| "str_split1 sep (c # cs) =
     (if sep \<noteq> [] \<and> take (length sep) (c # cs) = sep
      then [[], drop (length sep) (c # cs)]
      else (case str_split1 sep cs of
              [] \<Rightarrow> [[c]]
            | p # ps \<Rightarrow> (c # p) # ps))"

text \<open>\<^verbatim>\<open>xs[1]\<close>, which raises \<^verbatim>\<open>IndexError\<close> on a list shorter than two.\<close>

definition index1 :: "'a list \<Rightarrow> exn + 'a" where
  "index1 xs =
     (case xs of
        _ # y # _ \<Rightarrow> Inr y
      | _ \<Rightarrow> Inl (Exception ''list index out of range''))"

text \<open>
  \<^verbatim>\<open>str.isspace\<close> of one character, on the characters below U+0100: tab to carriage
  return, the four separators U+001C to U+001F, the space, U+0085 and U+00A0.
  \<^verbatim>\<open>s.strip()\<close> drops these from both ends.
\<close>

definition isspace :: "char \<Rightarrow> bool" where
  "isspace c =
     (let n = (of_char c :: nat)
      in (9 \<le> n \<and> n \<le> 13) \<or> (28 \<le> n \<and> n \<le> 32) \<or> n = 133 \<or> n = 160)"

definition str_strip :: "string \<Rightarrow> string" where
  "str_strip s = rev (dropWhile isspace (rev (dropWhile isspace s)))"

text \<open>
  \<^verbatim>\<open>s.lower()\<close>, on the characters below U+0100: the letters A to Z, and the Latin-1
  capitals U+00C0 to U+00DE but for the multiplication sign U+00D7, move up by 32.
\<close>

definition lower_char :: "char \<Rightarrow> char" where
  "lower_char c =
     (let n = (of_char c :: nat)
      in if (65 \<le> n \<and> n \<le> 90) \<or> (192 \<le> n \<and> n \<le> 222 \<and> n \<noteq> 215)
         then char_of (n + 32) else c)"

definition str_lower :: "string \<Rightarrow> string" where
  "str_lower s = map lower_char s"

text \<open>
  \<^verbatim>\<open>d.get(key, default)\<close>. Only a \<^verbatim>\<open>dict\<close> has the method: on any other value the
  attribute lookup raises \<^verbatim>\<open>AttributeError\<close>.
\<close>

fun type_name :: "pyval \<Rightarrow> string" where
  "type_name PyNone = ''NoneType''"
| "type_name (PyBool _) = ''bool''"
| "type_name (PyInt _) = ''int''"
| "type_name (PyFloat _) = ''float''"
| "type_name (PyStr _) = ''str''"
| "type_name (PyList _) = ''list''"
| "type_name (PyDict _) = ''dict''"

definition py_get :: "pyval \<Rightarrow> string \<Rightarrow> pyval \<Rightarrow> exn + pyval" where
  "py_get d key dflt =
     (case d of
        PyDict kvs \<Rightarrow> Inr (case map_of kvs key of None \<Rightarrow> dflt | Some v \<Rightarrow> v)
      | _ \<Rightarrow> Inl (Exception ([quote] @ type_name d @ [quote]
                 @ '' object has no attribute '' @ [quote] @ ''get'' @ [quote])))"

text \<open>
  \<^verbatim>\<open>except Exception as e: raise Exception(f"<prefix>{e}")\<close>: an \<^verbatim>\<open>Exception\<close> is replaced
  by one whose message has the prefix; anything else passes through.
\<close>

fun reraise :: "string \<Rightarrow> exn \<Rightarrow> exn" where
  "reraise prefix (Exception m) = Exception (prefix @ m)"
| "reraise prefix e = e"

section \<open>The outside world\<close>

text \<open>
  \<^verbatim>\<open>subprocess.run(..., capture_output=True, text=True)\<close> returns a completed process
  (\<^verbatim>\<open>check\<close> is not set, so a non-zero exit code does not raise) or raises, for example
  when the \<^verbatim>\<open>adb\<close> executable is not found. \<^verbatim>\<open>requests.get\<close> and \<^verbatim>\<open>requests.post\<close>
  return a response or raise (connection refused, timeout). \<open>json\<close> is what
  \<^verbatim>\<open>response.json()\<close> gives for the response.
\<close>

record completed_process =
  returncode :: int
  stdout :: string
  stderr :: string

record response =
  status_code :: int
  reason :: string
  url :: string
  "text" :: string
  json :: "exn + pyval"

datatype stream = Stdout | Stderr

text \<open>
  Every call that leaves the program is recorded, in order: the import of \<^verbatim>\<open>requests\<close>,
  \<^verbatim>\<open>subprocess.run(argv)\<close>, \<^verbatim>\<open>requests.get(url, timeout)\<close>,
  \<^verbatim>\<open>requests.post(url, json, headers)\<close>, \<^verbatim>\<open>print(value, file)\<close> and
  \<^verbatim>\<open>parser.print_help()\<close>.
\<close>

datatype event =
    Import_requests
  | Subprocess_run "string list"
  | Requests_get string "int option"
  | Requests_post string pyval "(string \<times> string) list"
  | Print pyval stream
  | Print_help

text \<open>
  The environment answers each call, given the calls made so far. Nothing is assumed of
  it: every theorem below holds for every environment.
\<close>

record env =
  import_requests :: "event list \<Rightarrow> exn option"
  subprocess_run :: "event list \<Rightarrow> string list \<Rightarrow> exn + completed_process"
  requests_get :: "event list \<Rightarrow> string \<Rightarrow> int option \<Rightarrow> exn + response"
  requests_post ::
    "event list \<Rightarrow> string \<Rightarrow> pyval \<Rightarrow> (string \<times> string) list \<Rightarrow> exn + response"
  json_loads :: "string \<Rightarrow> exn + pyval"
  print_error :: "event list \<Rightarrow> pyval \<Rightarrow> stream \<Rightarrow> exn option"
  print_help_error :: "event list \<Rightarrow> exn option"

text \<open>
  \<^verbatim>\<open>print(value, file=stream)\<close> raises when the stream cannot encode a character of the
  text (\<^verbatim>\<open>UnicodeEncodeError\<close> on a standard output that is not UTF-8). A text of ASCII
  characters is encodable on every stream; for any other value the environment says
  whether the print raises. The help of \<^verbatim>\<open>parser.print_help()\<close> has a character outside
  ASCII in its epilog, so the environment says whether it raises too. The call is
  recorded in both cases.
\<close>

fun ascii_text :: "pyval \<Rightarrow> bool" where
  "ascii_text (PyStr t) = list_all (\<lambda>c. (of_char c :: nat) < 128) t"
| "ascii_text _ = False"

text \<open>
  \<^verbatim>\<open>response.raise_for_status()\<close> of the \<^verbatim>\<open>requests\<close> library: an \<^verbatim>\<open>HTTPError\<close> for a
  status from 400 to 599, nothing for any other status.
\<close>

definition raise_for_status :: "response \<Rightarrow> exn option" where
  "raise_for_status r =
     (if 400 \<le> status_code r \<and> status_code r < 500
      then Some (Exception (str_int (status_code r) @ '' Client Error: '' @ reason r
                   @ '' for url: '' @ url r))
      else if 500 \<le> status_code r \<and> status_code r < 600
      then Some (Exception (str_int (status_code r) @ '' Server Error: '' @ reason r
                   @ '' for url: '' @ url r))
      else None)"

section \<open>The clipboard facade\<close>

text \<open>
  The transport mode: the constructor's annotation \<^verbatim>\<open>Literal['auto', 'http', 'adb']\<close> and
  the \<^verbatim>\<open>choices\<close> of the command line admit these three values and no other.
\<close>

datatype mode = Auto | Http | Adb

record DroidrunClipboard =
  "method" :: mode
  port :: int
  http_available :: "bool option"

text \<open>
  The state of a run: the facade instance (the module's \<^verbatim>\<open>_clipboard\<close>) and the calls
  made so far. A method returns its value or the exception it raised, and the state it
  leaves.
\<close>

record state =
  clipboard :: DroidrunClipboard
  trace :: "event list"

type_synonym 'a result = "(exn + 'a) \<times> state"

definition DroidrunClipboard_init :: "mode \<Rightarrow> int \<Rightarrow> DroidrunClipboard" where
  "DroidrunClipboard_init m p = \<lparr>method = m, port = p, http_available = None\<rparr>"

definition log :: "event \<Rightarrow> state \<Rightarrow> state" where
  "log e s = s\<lparr>trace := trace s @ [e]\<rparr>"

definition set_http_available :: "bool \<Rightarrow> state \<Rightarrow> state" where
  "set_http_available b s = s\<lparr>clipboard := (clipboard s)\<lparr>http_available := Some b\<rparr>\<rparr>"

definition localhost :: "state \<Rightarrow> string \<Rightarrow> string" where
  "localhost s path = ''http://localhost:'' @ str_int (port (clipboard s)) @ path"

definition forward_argv :: "state \<Rightarrow> string list" where
  "forward_argv s =
     [''adb'', ''forward'', ''tcp:'' @ str_int (port (clipboard s)),
      ''tcp:'' @ str_int (port (clipboard s))]"

definition setup_port_forwarding :: "env \<Rightarrow> state \<Rightarrow> bool result" where
  "setup_port_forwarding env s =
     (case subprocess_run env (trace s) (forward_argv s) of
        Inl e \<Rightarrow> (Inl e, log (Subprocess_run (forward_argv s)) s)
      | Inr result \<Rightarrow> (Inr (returncode result = 0), log (Subprocess_run (forward_argv s)) s))"

text \<open>
  The body of the \<^verbatim>\<open>try\<close> of \<^verbatim>\<open>_is_http_available\<close>: import, port forward (its result
  is dropped), \<^verbatim>\<open>GET /ping\<close> with a timeout of one second, and the assignment of the flag.
\<close>

definition probe :: "env \<Rightarrow> state \<Rightarrow> unit result" where
  "probe env s =
     (case import_requests env (trace s) of
        Some e \<Rightarrow> (Inl e, log Import_requests s)
      | None \<Rightarrow>
          (case setup_port_forwarding env (log Import_requests s) of
             (Inl e, s1) \<Rightarrow> (Inl e, s1)
           | (Inr _, s1) \<Rightarrow>
               (case requests_get env (trace s1) (localhost s1 ''/ping'') (Some 1) of
                  Inl e \<Rightarrow> (Inl e, log (Requests_get (localhost s1 ''/ping'') (Some 1)) s1)
                | Inr response \<Rightarrow>
                    (Inr (), set_http_available (status_code response = 200)
                               (log (Requests_get (localhost s1 ''/ping'') (Some 1)) s1)))))"

text \<open>
  \<^verbatim>\<open>_is_http_available\<close>: the memoized flag when it is set; otherwise the probe, whose
  bare \<^verbatim>\<open>except:\<close> turns every exception into \<^verbatim>\<open>False\<close>, and then the flag.
\<close>

definition is_http_available :: "env \<Rightarrow> state \<Rightarrow> bool result" where
  "is_http_available env s =
     (case http_available (clipboard s) of
        Some b \<Rightarrow> (Inr b, s)
      | None \<Rightarrow>
          (let s2 = (case probe env s of
                       (Inl e, s1) \<Rightarrow> set_http_available False s1
                     | (Inr _, s1) \<Rightarrow> s1)
           in (Inr (http_available (clipboard s2) = Some True), s2)))"

section \<open>The HTTP transport\<close>

text \<open>
  What \<^verbatim>\<open>_get_http\<close> does with the response: \<^verbatim>\<open>raise_for_status\<close>, \<^verbatim>\<open>response.json()\<close>,
  and the \<^verbatim>\<open>data\<close> entry (an empty string when the key is missing) when the \<^verbatim>\<open>status\<close>
  entry is the string \<^verbatim>\<open>success\<close>, \<^verbatim>\<open>None\<close> otherwise.
\<close>

definition get_http_response :: "response \<Rightarrow> exn + pyval" where
  "get_http_response r =
     (case raise_for_status r of
        Some e \<Rightarrow> Inl e
      | None \<Rightarrow>
          (case json r of
             Inl e \<Rightarrow> Inl e
           | Inr data \<Rightarrow>
               (case py_get data ''status'' PyNone of
                  Inl e \<Rightarrow> Inl e
                | Inr st \<Rightarrow>
                    if st = PyStr ''success'' then py_get data ''data'' (PyStr [])
                    else Inr PyNone)))"

definition get_http :: "env \<Rightarrow> state \<Rightarrow> pyval result" where
  "get_http env s =
     (case import_requests env (trace s) of
        Some e \<Rightarrow> (Inl (reraise ''HTTP GET failed: '' e), log Import_requests s)
      | None \<Rightarrow>
          (let s1 = log Import_requests s;
               u = localhost s1 ''/clipboard/get'';
               s2 = log (Requests_get u None) s1
           in case requests_get env (trace s1) u None of
                Inl e \<Rightarrow> (Inl (reraise ''HTTP GET failed: '' e), s2)
              | Inr r \<Rightarrow>
                  (case get_http_response r of
                     Inl e \<Rightarrow> (Inl (reraise ''HTTP GET failed: '' e), s2)
                   | Inr content \<Rightarrow> (Inr content, s2))))"

text \<open>
  \<^verbatim>\<open>_set_http\<close>: the body is the dict with the one key \<^verbatim>\<open>text\<close>; after
  \<^verbatim>\<open>raise_for_status\<close> the result is \<^verbatim>\<open>'success' in response.text.lower()\<close>.
\<close>

definition set_http_response :: "response \<Rightarrow> exn + bool" where
  "set_http_response r =
     (case raise_for_status r of
        Some e \<Rightarrow> Inl e
      | None \<Rightarrow> Inr (str_contains ''success'' (str_lower (text r))))"

definition set_http :: "env \<Rightarrow> string \<Rightarrow> state \<Rightarrow> bool result" where
  "set_http env t s =
     (case import_requests env (trace s) of
        Some e \<Rightarrow> (Inl (reraise ''HTTP SET failed: '' e), log Import_requests s)
      | None \<Rightarrow>
          (let s1 = log Import_requests s;
               u = localhost s1 ''/clipboard/set'';
               body = PyDict [(''text'', PyStr t)];
               headers = [(''Content-Type'', ''application/json'')];
               s2 = log (Requests_post u body headers) s1
           in case requests_post env (trace s1) u body headers of
                Inl e \<Rightarrow> (Inl (reraise ''HTTP SET failed: '' e), s2)
              | Inr r \<Rightarrow>
                  (case set_http_response r of
                     Inl e \<Rightarrow> (Inl (reraise ''HTTP SET failed: '' e), s2)
                   | Inr ok \<Rightarrow> (Inr ok, s2))))"

section \<open>The shell transport\<close>

text \<open>
  The loop of \<^verbatim>\<open>_get_adb\<close> over the lines of the output: a line with the marker is cut
  after its first \<^verbatim>\<open>result=\<close> and decoded; the first decoded object whose \<^verbatim>\<open>status\<close> is
  \<^verbatim>\<open>success\<close> ends the loop with its \<^verbatim>\<open>data\<close>; when the lines run out the result is
  \<^verbatim>\<open>None\<close>. A line that does not decode, or decodes to something that is not a dict,
  raises.
\<close>

fun scan_lines :: "env \<Rightarrow> string list \<Rightarrow> exn + pyval" where
  "scan_lines env [] = Inr PyNone"
| "scan_lines env (line # rest) =
     (if str_contains ''result='' line
      then (case index1 (str_split1 ''result='' line) of
              Inl e \<Rightarrow> Inl e
            | Inr json_str \<Rightarrow>
                (case json_loads env json_str of
                   Inl e \<Rightarrow> Inl e
                 | Inr outer_json \<Rightarrow>
                     (case py_get outer_json ''status'' PyNone of
                        Inl e \<Rightarrow> Inl e
                      | Inr st \<Rightarrow>
                          if st = PyStr ''success''
                          then py_get outer_json ''data'' (PyStr [])
                          else scan_lines env rest)))
      else scan_lines env rest)"

definition query_argv :: "string list" where
  "query_argv =
     [''adb'', ''shell'', ''content'', ''query'', ''--uri'',
      ''content://com.droidrun.portal/clipboard/get'']"

definition get_adb :: "env \<Rightarrow> state \<Rightarrow> pyval result" where
  "get_adb env s =
     (let s1 = log (Subprocess_run query_argv) s
      in case subprocess_run env (trace s) query_argv of
           Inl e \<Rightarrow> (Inl (reraise ''ADB GET failed: '' e), s1)
         | Inr r \<Rightarrow>
             if returncode r \<noteq> 0
             then (Inl (reraise ''ADB GET failed: ''
                          (Exception (''ADB command failed: '' @ stderr r))), s1)
             else (case scan_lines env (str_split [newline] (str_strip (stdout r))) of
                     Inl e \<Rightarrow> (Inl (reraise ''ADB GET failed: '' e), s1)
                   | Inr content \<Rightarrow> (Inr content, s1)))"

text \<open>
  \<^verbatim>\<open>_set_adb\<close>: the text is escaped by two calls of \<^verbatim>\<open>replace\<close>, put between single
  quotes in the command, and the command is run by \<^verbatim>\<open>adb shell\<close>; the result is whether
  the exit code is zero.
\<close>

definition escaped_text :: "string \<Rightarrow> string" where
  "escaped_text t =
     str_replace [quote] [quote, backslash, quote, quote]
       (str_replace [backslash] [backslash, backslash] t)"

definition insert_cmd :: "string \<Rightarrow> string" where
  "insert_cmd escaped =
     ''content insert --uri content://com.droidrun.portal/clipboard/set --bind ''
     @ [quote] @ ''text:s:'' @ escaped @ [quote]"

definition set_adb :: "env \<Rightarrow> string \<Rightarrow> state \<Rightarrow> bool result" where
  "set_adb env t s =
     (let argv = [''adb'', ''shell'', insert_cmd (escaped_text t)];
          s1 = log (Subprocess_run argv) s
      in case subprocess_run env (trace s) argv of
           Inl e \<Rightarrow> (Inl (reraise ''ADB SET failed: '' e), s1)
         | Inr r \<Rightarrow> (Inr (returncode r = 0), s1))"

section \<open>Transport selection\<close>

text \<open>
  \<^verbatim>\<open>get\<close> and \<^verbatim>\<open>set\<close> of the facade. The condition
  \<^verbatim>\<open>self.method == 'http' or (self.method == 'auto' and self._is_http_available())\<close>
  calls the probe only in mode \<^verbatim>\<open>auto\<close>.
\<close>

definition clipboard_get :: "env \<Rightarrow> state \<Rightarrow> pyval result" where
  "clipboard_get env s =
     (if method (clipboard s) = Http then get_http env s
      else if method (clipboard s) = Auto
      then (case is_http_available env s of
              (Inl e, s1) \<Rightarrow> (Inl e, s1)
            | (Inr b, s1) \<Rightarrow> if b then get_http env s1 else get_adb env s1)
      else get_adb env s)"

definition clipboard_set :: "env \<Rightarrow> string \<Rightarrow> state \<Rightarrow> bool result" where
  "clipboard_set env t s =
     (if method (clipboard s) = Http then set_http env t s
      else if method (clipboard s) = Auto
      then (case is_http_available env s of
              (Inl e, s1) \<Rightarrow> (Inl e, s1)
            | (Inr b, s1) \<Rightarrow> if b then set_http env t s1 else set_adb env t s1)
      else set_adb env t s)"

text \<open>The module's convenience functions work on its instance \<^verbatim>\<open>_clipboard\<close>.\<close>

definition get_clipboard :: "env \<Rightarrow> state \<Rightarrow> pyval result" where
  "get_clipboard env s = clipboard_get env s"

definition set_clipboard :: "env \<Rightarrow> string \<Rightarrow> state \<Rightarrow> bool result" where
  "set_clipboard env t s = clipboard_set env t s"

section \<open>The command line\<close>

text \<open>
  The parsed arguments of the actions \<^verbatim>\<open>get\<close> and \<^verbatim>\<open>set\<close>; the positional \<^verbatim>\<open>text\<close> has
  \<^verbatim>\<open>nargs='?'\<close> and is \<^verbatim>\<open>None\<close> when absent. The action \<^verbatim>\<open>test\<close> runs the self-test
  harness, which is not part of this development.

  The check mark U+2713 and the ballot cross U+2717 of the two messages of \<^verbatim>\<open>set\<close> lie
  outside the characters of HOL and are written as their UTF-8 bytes. A \<^verbatim>\<open>print\<close> is
  recorded with the value printed and its stream. The prints of \<^verbatim>\<open>main\<close> are inside its
  \<^verbatim>\<open>try\<close>: an exception of a print goes to the \<^verbatim>\<open>except\<close> clauses, and an exception
  of a print in an \<^verbatim>\<open>except\<close> clause leaves \<^verbatim>\<open>main\<close>. A print of ASCII text does
  not raise; a print of other text raises when the environment says that the stream
  cannot encode it (\<^verbatim>\<open>UnicodeEncodeError\<close>), and \<^verbatim>\<open>print_help\<close>, whose epilog is not
  ASCII, likewise. The count of characters in the confirmation of \<^verbatim>\<open>set\<close> is the
  length of the list of characters, which is Python's \<^verbatim>\<open>len\<close> for a text of characters
  below U+0100.
\<close>

datatype action = Action_get | Action_set

record args =
  action :: action
  arg_text :: "string option"
  arg_method :: mode
  arg_port :: int

definition check_mark :: string where
  "check_mark = [CHR 0xE2, CHR 0x9C, CHR 0x93]"

definition ballot_x :: string where
  "ballot_x = [CHR 0xE2, CHR 0x9C, CHR 0x97]"

definition py_print :: "env \<Rightarrow> pyval \<Rightarrow> stream \<Rightarrow> state \<Rightarrow> unit result" where
  "py_print env v st s =
     (if ascii_text v then (Inr (), log (Print v st) s)
      else (case print_error env (trace s) v st of
              None \<Rightarrow> (Inr (), log (Print v st) s)
            | Some e \<Rightarrow> (Inl e, log (Print v st) s)))"

definition py_print_help :: "env \<Rightarrow> state \<Rightarrow> unit result" where
  "py_print_help env s =
     (case print_help_error env (trace s) of
        None \<Rightarrow> (Inr (), log Print_help s)
      | Some e \<Rightarrow> (Inl e, log Print_help s))"

text \<open>The two \<^verbatim>\<open>except\<close> clauses of \<^verbatim>\<open>main\<close>: a print, then the exit code.\<close>

fun main_except :: "env \<Rightarrow> exn \<Rightarrow> state \<Rightarrow> int result" where
  "main_except env KeyboardInterrupt s =
     (case py_print env (PyStr ([newline, newline] @ ''Interrupted by user'')) Stderr s of
        (Inl e, s1) \<Rightarrow> (Inl e, s1)
      | (Inr _, s1) \<Rightarrow> (Inr 130, s1))"
| "main_except env (Exception m) s =
     (case py_print env (PyStr (''Error: '' @ m)) Stderr s of
        (Inl e, s1) \<Rightarrow> (Inl e, s1)
      | (Inr _, s1) \<Rightarrow> (Inr 1, s1))"
| "main_except env (BaseException m) s = (Inl (BaseException m), s)"

text \<open>A print inside the \<^verbatim>\<open>try\<close>, followed by \<^verbatim>\<open>return code\<close>.\<close>

definition print_return :: "env \<Rightarrow> pyval \<Rightarrow> stream \<Rightarrow> int \<Rightarrow> state \<Rightarrow> int result" where
  "print_return env v st code s =
     (case py_print env v st s of
        (Inl e, s1) \<Rightarrow> main_except env e s1
      | (Inr _, s1) \<Rightarrow> (Inr code, s1))"

definition main :: "env \<Rightarrow> args \<Rightarrow> state \<Rightarrow> int result" where
  "main env a s =
     (let s0 = s\<lparr>clipboard := DroidrunClipboard_init (arg_method a) (arg_port a)\<rparr>
      in case action a of
           Action_get \<Rightarrow>
             (case get_clipboard env s0 of
                (Inl e, s1) \<Rightarrow> main_except env e s1
              | (Inr txt, s1) \<Rightarrow>
                  if txt \<noteq> PyNone then print_return env txt Stdout 0 s1
                  else print_return env (PyStr ''(Clipboard is empty)'') Stderr 1 s1)
         | Action_set \<Rightarrow>
             (case arg_text a of
                None \<Rightarrow>
                  (case py_print env
                          (PyStr (''Error: Text argument required for '' @ [quote]
                                  @ ''set'' @ [quote] @ '' action'')) Stderr s0 of
                     (Inl e, s1) \<Rightarrow> main_except env e s1
                   | (Inr _, s1) \<Rightarrow>
                       (case py_print_help env s1 of
                          (Inl e, s2) \<Rightarrow> main_except env e s2
                        | (Inr _, s2) \<Rightarrow> (Inr 1, s2)))
              | Some t \<Rightarrow>
                  (case set_clipboard env t s0 of
                     (Inl e, s1) \<Rightarrow> main_except env e s1
                   | (Inr success, s1) \<Rightarrow>
                       if success
                       then print_return env
                              (PyStr (check_mark @ '' Clipboard set successfully (''
                                      @ str_nat (length t) @ '' chars)'')) Stdout 0 s1
                       else print_return env
                              (PyStr (ballot_x @ '' Failed to set clipboard'')) Stderr 1 s1)))"

section \<open>Notions of the specification\<close>

text \<open>
  The specification's words for the escaping: replace every occurrence of one character
  by a string, first the backslash by two backslashes, then the single quote by the four
  characters quote, backslash, quote, quote.
\<close>

definition replace_every :: "char \<Rightarrow> string \<Rightarrow> string \<Rightarrow> string" where
  "replace_every c new s = concat (map (\<lambda>x. if x = c then new else [x]) s)"

definition shell_escaped :: "string \<Rightarrow> string" where
  "shell_escaped t =
     replace_every quote [quote, backslash, quote, quote]
       (replace_every backslash [backslash, backslash] t)"

text \<open>The calls that are HTTP requests, and those among a list of calls.\<close>

fun is_http_request :: "event \<Rightarrow> bool" where
  "is_http_request (Requests_get _ _) = True"
| "is_http_request (Requests_post _ _ _) = True"
| "is_http_request _ = False"

definition http_requests :: "event list \<Rightarrow> event list" where
  "http_requests tr = filter is_http_request tr"

text \<open>
  The specification's words for the output of the query: the payload of a line is what
  follows its first \<^verbatim>\<open>result=\<close> marker, if it has one. A line is passed over when it has
  no marker, or its payload decodes to an object whose status is not \<^verbatim>\<open>success\<close>.
\<close>

fun after_first :: "string \<Rightarrow> string \<Rightarrow> string option" where
  "after_first m [] = (if m = [] then Some [] else None)"
| "after_first m (c # cs) =
     (if take (length m) (c # cs) = m then Some (drop (length m) (c # cs))
      else after_first m cs)"

definition passed_over :: "env \<Rightarrow> string \<Rightarrow> bool" where
  "passed_over env x =
     (case after_first ''result='' x of
        None \<Rightarrow> True
      | Some js \<Rightarrow>
          (case json_loads env js of
             Inr (PyDict kvs) \<Rightarrow> map_of kvs ''status'' \<noteq> Some (PyStr ''success'')
           | _ \<Rightarrow> False))"

definition output_lines :: "completed_process \<Rightarrow> string list" where
  "output_lines r = str_split [newline] (str_strip (stdout r))"

text \<open>
  The specification's words for the success test of the HTTP \<^verbatim>\<open>set\<close>: two characters are
  the same letter when they differ by case at most, and a word is contained in a text,
  case ignored, when some segment of the text matches it letter by letter.
\<close>

definition same_letter :: "char \<Rightarrow> char \<Rightarrow> bool" where
  "same_letter a b = (lower_char a = lower_char b)"

fun starts_ignoring_case :: "string \<Rightarrow> string \<Rightarrow> bool" where
  "starts_ignoring_case [] s = True"
| "starts_ignoring_case (p # ps) [] = False"
| "starts_ignoring_case (p # ps) (c # cs) = (same_letter p c \<and> starts_ignoring_case ps cs)"

fun contains_ignoring_case :: "string \<Rightarrow> string \<Rightarrow> bool" where
  "contains_ignoring_case sub [] = (sub = [])"
| "contains_ignoring_case sub (c # cs) =
     (starts_ignoring_case sub (c # cs) \<or> contains_ignoring_case sub cs)"

text \<open>The operations of a facade instance, and a run of several of them in a row.\<close>

datatype facade_op = Op_get | Op_set string | Op_probe

fun run_op :: "env \<Rightarrow> facade_op \<Rightarrow> state \<Rightarrow> state" where
  "run_op env Op_get s = snd (clipboard_get env s)"
| "run_op env (Op_set t) s = snd (clipboard_set env t s)"
| "run_op env Op_probe s = snd (is_http_available env s)"

fun run_ops :: "env \<Rightarrow> facade_op list \<Rightarrow> state \<Rightarrow> state" where
  "run_ops env [] s = s"
| "run_ops env (x # xs) s = run_ops env xs (run_op env x s)"

text \<open>The calls that write to the terminal.\<close>

fun is_print :: "event \<Rightarrow> bool" where
  "is_print (Print _ _) = True"
| "is_print Print_help = True"
| "is_print _ = False"

section \<open>Sample environments\<close>

text \<open>
  Sample environments and states, on which the theorems below are run: a decoder that
  knows two payloads, an environment that gives the same answers whatever the call (and
  whose streams encode every text), a facade that has not probed yet and one that has.
\<close>

definition sample_loads :: "string \<Rightarrow> exn + pyval" where
  "sample_loads js =
     (if js = ''{\"status\": \"success\", \"data\": \"\"}''
      then Inr (PyDict [(''status'', PyStr ''success''), (''data'', PyStr [])])
      else if js = ''{\"status\": \"error\"}''
      then Inr (PyDict [(''status'', PyStr ''error'')])
      else Inl (Exception ''Expecting value''))"

definition sample_env :: "exn option \<Rightarrow> exn + completed_process \<Rightarrow> exn + response \<Rightarrow> env" where
  "sample_env imp proc resp =
     \<lparr>import_requests = (\<lambda>_. imp), subprocess_run = (\<lambda>_ _. proc),
      requests_get = (\<lambda>_ _ _. resp), requests_post = (\<lambda>_ _ _ _. resp),
      json_loads = sample_loads, print_error = (\<lambda>_ _ _. None),
      print_help_error = (\<lambda>_. None)\<rparr>"

definition sample_process :: "int \<Rightarrow> string \<Rightarrow> string \<Rightarrow> completed_process" where
  "sample_process rc out err = \<lparr>returncode = rc, stdout = out, stderr = err\<rparr>"

definition sample_response :: "int \<Rightarrow> string \<Rightarrow> string \<Rightarrow> exn + pyval \<Rightarrow> response" where
  "sample_response sc phrase body j =
     \<lparr>status_code = sc, reason = phrase, url = ''http://localhost:8080/'', text = body,
      json = j\<rparr>"

definition answering :: "response \<Rightarrow> env" where
  "answering r = sample_env None (Inr (sample_process 0 [] [])) (Inr r)"

definition fresh :: "mode \<Rightarrow> state" where
  "fresh m = \<lparr>clipboard = DroidrunClipboard_init m 8080, trace = []\<rparr>"

definition empty_clipboard :: response where
  "empty_clipboard =
     sample_response 200 ''OK'' ''{\"status\": \"success\", \"data\": \"\"}''
       (Inr (PyDict [(''status'', PyStr ''success''), (''data'', PyStr [])]))"

definition env_up :: env where
  "env_up = answering empty_clipboard"

definition env_down :: env where
  "env_down = sample_env None (Inr (sample_process 0 [] []))
     (Inl (Exception ''Connection refused''))"

definition cached :: "bool \<Rightarrow> state" where
  "cached b =
     \<lparr>clipboard = \<lparr>method = Auto, port = 8080, http_available = Some b\<rparr>, trace = []\<rparr>"

text \<open>Sample outputs of the query: one row with an empty clipboard text, and a failure.\<close>

definition success_line :: string where
  "success_line = ''Row: 0 result={\"status\": \"success\", \"data\": \"\"}''"

definition env_adb_ok :: env where
  "env_adb_ok = sample_env None (Inr (sample_process 0 (success_line @ [newline]) []))
     (Inl (Exception ''Connection refused''))"

definition env_adb_fail :: env where
  "env_adb_fail = sample_env None
     (Inr (sample_process 1 [] ''adb: no devices/emulators found''))
     (Inl (Exception ''Connection refused''))"

text \<open>
  Sample responses: a \<^verbatim>\<open>300 Multiple Choices\<close>, which is not a 2xx status and which
  \<^verbatim>\<open>requests\<close> does not follow as a redirect, with a body that says success; a
  \<^verbatim>\<open>404\<close>; a \<^verbatim>\<open>200\<close> that says success in capitals, and one that does not.
\<close>

definition multiple_choices :: response where
  "multiple_choices =
     sample_response 300 ''Multiple Choices'' ''{\"status\": \"success\", \"data\": \"hi\"}''
       (Inr (PyDict [(''status'', PyStr ''success''), (''data'', PyStr ''hi'')]))"

definition not_found :: response where
  "not_found = sample_response 404 ''Not Found'' [] (Inl (Exception ''Expecting value''))"

definition capitals :: response where
  "capitals =
     sample_response 200 ''OK'' ''{\"Status\": \"SUCCESS\"}''
       (Inr (PyDict [(''Status'', PyStr ''SUCCESS'')]))"

definition denied :: response where
  "denied =
     sample_response 200 ''OK'' ''{\"status\": \"error\"}''
       (Inr (PyDict [(''status'', PyStr ''error'')]))"

text \<open>
  Sample environments for the probe: the \<^verbatim>\<open>adb\<close> executable cannot be started while the
  server would answer; and \<^verbatim>\<open>adb forward\<close> exits with code 1 while the server answers.
\<close>

definition env_no_adb :: env where
  "env_no_adb =
     sample_env None
       (Inl (Exception (''[Errno 2] No such file or directory: '' @ [quote] @ ''adb'' @ [quote])))
       (Inr empty_clipboard)"

definition env_forward_failed :: env where
  "env_forward_failed =
     sample_env None (Inr (sample_process 1 [] ''adb: error: no devices/emulators found''))
       (Inr empty_clipboard)"

text \<open>Sample command lines: \<^verbatim>\<open>get --method adb\<close>, and \<^verbatim>\<open>set\<close> with or without a text.\<close>

definition cli_get :: args where
  "cli_get = \<lparr>action = Action_get, arg_text = None, arg_method = Adb, arg_port = 8080\<rparr>"

definition cli_set :: "string option \<Rightarrow> args" where
  "cli_set t = \<lparr>action = Action_set, arg_text = t, arg_method = Adb, arg_port = 8080\<rparr>"

text \<open>
  A sample environment whose standard streams have the encoding \<^verbatim>\<open>ascii\<close>: the print
  of a text with a character outside ASCII raises \<^verbatim>\<open>UnicodeEncodeError\<close>.
\<close>

definition ascii_codec_error :: string where
  "ascii_codec_error =
     [quote] @ ''ascii'' @ [quote] @ '' codec can'' @ [quote] @ ''t encode character ''
     @ [quote, backslash] @ ''u2713'' @ [quote]
     @ '' in position 0: ordinal not in range(128)''"

definition env_ascii_stdout :: env where
  "env_ascii_stdout = env_down\<lparr>print_error := (\<lambda>_ _ _. Some (Exception ascii_codec_error))\<rparr>"


section \<open>Facts about the sample environments\<close>

lemma sample_env_simps:
  "import_requests (sample_env imp proc resp) tr = imp"
  "subprocess_run (sample_env imp proc resp) tr argv = proc"
  "requests_get (sample_env imp proc resp) tr u timeout = resp"
  "requests_post (sample_env imp proc resp) tr u body headers = resp"
  "json_loads (sample_env imp proc resp) = sample_loads"
  "print_error (sample_env imp proc resp) tr v st = None"
  "print_help_error (sample_env imp proc resp) tr = None"
  by (simp_all add: sample_env_def)

lemma answering_simps:
  "import_requests (answering r) tr = None"
  "subprocess_run (answering r) tr argv = Inr (sample_process 0 [] [])"
  "requests_get (answering r) tr u timeout = Inr r"
  "requests_post (answering r) tr u body headers = Inr r"
  by (simp_all add: answering_def sample_env_simps)

lemma sample_response_simps:
  "status_code (sample_response sc phrase body j) = sc"
  "reason (sample_response sc phrase body j) = phrase"
  "text (sample_response sc phrase body j) = body"
  "json (sample_response sc phrase body j) = j"
  by (simp_all add: sample_response_def)

lemma sample_process_simps:
  "returncode (sample_process rc out err) = rc" "stdout (sample_process rc out err) = out"
  "stderr (sample_process rc out err) = err"
  by (simp_all add: sample_process_def)

lemma fresh_simps:
  "method (clipboard (fresh m)) = m" "http_available (clipboard (fresh m)) = None"
  "trace (fresh m) = []"
  by (simp_all add: fresh_def DroidrunClipboard_init_def)

lemma fresh_port: "str_int (port (clipboard (fresh m))) = ''8080''"
  by (simp add: fresh_def DroidrunClipboard_init_def str_int_def)

lemma cached_simps:
  "method (clipboard (cached b)) = Auto" "http_available (clipboard (cached b)) = Some b"
  "trace (cached b) = []"
  by (simp_all add: cached_def)

section \<open>Escaping in the shell transport\<close>

lemma replace_from_single: "replace_from [c] new s = replace_every c new s"
  by (induction s) (simp_all add: replace_every_def)

lemma str_replace_single: "str_replace [c] new s = replace_every c new s"
  by (simp add: str_replace_def replace_from_single)

lemma escaped_text_eq: "escaped_text t = shell_escaped t"
  by (simp add: escaped_text_def shell_escaped_def str_replace_single)

text \<open>
  Character by character: a backslash becomes two, a quote becomes the four characters
  (whose backslash is not doubled, the quotes being replaced last), anything else stays.
\<close>

lemma shell_escaped_chars:
  "shell_escaped t =
     concat (map (\<lambda>c. if c = backslash then [backslash, backslash]
                        else if c = quote then [quote, backslash, quote, quote]
                        else [c]) t)"
  by (induction t) (simp_all add: shell_escaped_def replace_every_def backslash_def quote_def)

text \<open>
  C1. For every text, \<^verbatim>\<open>_set_adb\<close> makes exactly one call, \<^verbatim>\<open>adb shell\<close> with the content
  insert command whose \<^verbatim>\<open>text:s:\<close> binding holds, between single quotes, the text with
  every backslash replaced by two backslashes first and every single quote replaced by
  quote, backslash, quote, quote second.
\<close>

theorem set_adb_command:
  "trace (snd (set_adb env t s)) =
     trace s @ [Subprocess_run [''adb'', ''shell'',
        ''content insert --uri content://com.droidrun.portal/clipboard/set --bind ''
        @ [quote] @ ''text:s:'' @ shell_escaped t @ [quote]]]"
  by (simp add: set_adb_def Let_def log_def insert_cmd_def escaped_text_eq split: sum.split)

section \<open>Transport selection by the facade\<close>

lemma is_http_available_returns:
  "fst (is_http_available env s) = Inr True \<or> fst (is_http_available env s) = Inr False"
  by (simp add: is_http_available_def Let_def split: option.split)

lemma is_http_available_cached:
  "http_available (clipboard s) = Some b \<Longrightarrow> is_http_available env s = (Inr b, s)"
  by (simp add: is_http_available_def)

lemma trace_get_adb: "trace (snd (get_adb env s)) = trace s @ [Subprocess_run query_argv]"
  by (simp add: get_adb_def Let_def log_def split: sum.split)

lemma trace_set_adb:
  "trace (snd (set_adb env t s)) =
     trace s @ [Subprocess_run [''adb'', ''shell'', insert_cmd (escaped_text t)]]"
  by (simp add: set_adb_def Let_def log_def split: sum.split)

lemma http_requests_get_adb:
  "http_requests (trace (snd (get_adb env s))) = http_requests (trace s)"
  by (simp add: trace_get_adb http_requests_def)

lemma http_requests_set_adb:
  "http_requests (trace (snd (set_adb env t s))) = http_requests (trace s)"
  by (simp add: trace_set_adb http_requests_def)

lemma clipboard_get_auto:
  "method (clipboard s) = Auto \<Longrightarrow> fst (is_http_available env s) = Inr b \<Longrightarrow>
   clipboard_get env s =
     (if b then get_http env (snd (is_http_available env s))
      else get_adb env (snd (is_http_available env s)))"
  by (cases "is_http_available env s") (simp add: clipboard_get_def)

lemma clipboard_set_auto:
  "method (clipboard s) = Auto \<Longrightarrow> fst (is_http_available env s) = Inr b \<Longrightarrow>
   clipboard_set env t s =
     (if b then set_http env t (snd (is_http_available env s))
      else set_adb env t (snd (is_http_available env s)))"
  by (cases "is_http_available env s") (simp add: clipboard_set_def)

lemma clipboard_get_http: "clipboard (snd (get_http env s)) = clipboard s"
  by (simp add: get_http_def Let_def log_def split: option.split sum.split)

lemma clipboard_set_http: "clipboard (snd (set_http env t s)) = clipboard s"
  by (simp add: set_http_def Let_def log_def split: option.split sum.split)

lemma clipboard_get_adb: "clipboard (snd (get_adb env s)) = clipboard s"
  by (simp add: get_adb_def Let_def log_def split: sum.split)

lemma clipboard_set_adb: "clipboard (snd (set_adb env t s)) = clipboard s"
  by (simp add: set_adb_def Let_def log_def split: sum.split)

text \<open>
  Once the flag says unavailable, a facade in mode \<^verbatim>\<open>auto\<close> stays so, and none of its
  operations makes an HTTP request.
\<close>

lemma run_op_unavailable:
  assumes "method (clipboard s) = Auto" and "http_available (clipboard s) = Some False"
  shows "method (clipboard (run_op env x s)) = Auto
       \<and> http_available (clipboard (run_op env x s)) = Some False
       \<and> http_requests (trace (run_op env x s)) = http_requests (trace s)"
proof (cases x)
  case Op_get
  then show ?thesis
    using assms is_http_available_cached [OF assms(2), of env]
    by (simp add: clipboard_get_def clipboard_get_adb http_requests_get_adb)
next
  case (Op_set t)
  then show ?thesis
    using assms is_http_available_cached [OF assms(2), of env]
    by (simp add: clipboard_set_def clipboard_set_adb http_requests_set_adb)
next
  case Op_probe
  then show ?thesis
    using assms is_http_available_cached [OF assms(2), of env] by simp
qed

lemma run_ops_unavailable:
  "method (clipboard s) = Auto \<Longrightarrow> http_available (clipboard s) = Some False \<Longrightarrow>
   http_requests (trace (run_ops env xs s)) = http_requests (trace s)"
proof (induction xs arbitrary: s)
  case Nil
  then show ?case by simp
next
  case (Cons x xs)
  then have "http_requests (trace (run_ops env xs (run_op env x s)))
      = http_requests (trace (run_op env x s))"
    using run_op_unavailable [of s env x] by blast
  then show ?case
    using Cons.prems run_op_unavailable [of s env x] by simp
qed

text \<open>
  C2. \<^verbatim>\<open>get\<close> and \<^verbatim>\<open>set\<close> of the facade: in mode \<^verbatim>\<open>http\<close> the call is the HTTP adapter's
  (the probe is not run); in mode \<^verbatim>\<open>auto\<close> the probe is run, and the call is the HTTP
  adapter's when it reports available and the shell adapter's when it reports
  unavailable; in mode \<^verbatim>\<open>adb\<close> the call is the shell adapter's. Where the shell adapter
  is chosen, the call adds no HTTP request to those made up to the end of the probe, and
  none at all when the mode is \<^verbatim>\<open>adb\<close> or the flag already says unavailable; in mode
  \<^verbatim>\<open>auto\<close> with the flag saying unavailable, no sequence of operations of the facade makes
  an HTTP request. The probe reports one or the other, so the cases are all there are.
\<close>

theorem facade_delegation:
  "(method (clipboard s) = Http \<longrightarrow>
      clipboard_get env s = get_http env s \<and> clipboard_set env t s = set_http env t s)
   \<and> (method (clipboard s) = Auto \<and> fst (is_http_available env s) = Inr True \<longrightarrow>
      clipboard_get env s = get_http env (snd (is_http_available env s))
      \<and> clipboard_set env t s = set_http env t (snd (is_http_available env s)))
   \<and> (method (clipboard s) = Auto \<and> fst (is_http_available env s) = Inr False \<longrightarrow>
      clipboard_get env s = get_adb env (snd (is_http_available env s))
      \<and> clipboard_set env t s = set_adb env t (snd (is_http_available env s))
      \<and> http_requests (trace (snd (clipboard_get env s)))
          = http_requests (trace (snd (is_http_available env s)))
      \<and> http_requests (trace (snd (clipboard_set env t s)))
          = http_requests (trace (snd (is_http_available env s))))
   \<and> (method (clipboard s) = Auto \<and> http_available (clipboard s) = Some False \<longrightarrow>
      http_requests (trace (snd (clipboard_get env s))) = http_requests (trace s)
      \<and> http_requests (trace (snd (clipboard_set env t s))) = http_requests (trace s)
      \<and> http_requests (trace (run_ops env xs s)) = http_requests (trace s))
   \<and> (method (clipboard s) = Adb \<longrightarrow>
      clipboard_get env s = get_adb env s \<and> clipboard_set env t s = set_adb env t s
      \<and> http_requests (trace (snd (clipboard_get env s))) = http_requests (trace s)
      \<and> http_requests (trace (snd (clipboard_set env t s))) = http_requests (trace s))
   \<and> (fst (is_http_available env s) = Inr True \<or> fst (is_http_available env s) = Inr False)"
proof -
  have http: "method (clipboard s) = Http \<Longrightarrow>
      clipboard_get env s = get_http env s \<and> clipboard_set env t s = set_http env t s"
    by (simp add: clipboard_get_def clipboard_set_def)
  have adb: "method (clipboard s) = Adb \<Longrightarrow>
      clipboard_get env s = get_adb env s \<and> clipboard_set env t s = set_adb env t s"
    by (simp add: clipboard_get_def clipboard_set_def)
  have up: "method (clipboard s) = Auto \<Longrightarrow> fst (is_http_available env s) = Inr True \<Longrightarrow>
      clipboard_get env s = get_http env (snd (is_http_available env s))
      \<and> clipboard_set env t s = set_http env t (snd (is_http_available env s))"
    by (simp add: clipboard_get_auto clipboard_set_auto)
  have down: "method (clipboard s) = Auto \<Longrightarrow> fst (is_http_available env s) = Inr False \<Longrightarrow>
      clipboard_get env s = get_adb env (snd (is_http_available env s))
      \<and> clipboard_set env t s = set_adb env t (snd (is_http_available env s))"
    using clipboard_get_auto [of s env False] clipboard_set_auto [of s env False t] by simp
  have cached: "method (clipboard s) = Auto \<Longrightarrow> http_available (clipboard s) = Some False \<Longrightarrow>
      clipboard_get env s = get_adb env s \<and> clipboard_set env t s = set_adb env t s"
    using down is_http_available_cached [of s False env] by simp
  show ?thesis
    using http adb up down cached is_http_available_returns [of env s]
      run_ops_unavailable [of s env xs]
    by (simp add: http_requests_get_adb http_requests_set_adb)
qed

lemma probe_env_up:
  "is_http_available env_up (fresh Auto) =
     (Inr True,
      \<lparr>clipboard = \<lparr>method = Auto, port = 8080, http_available = Some True\<rparr>,
       trace = [Import_requests,
                Subprocess_run [''adb'', ''forward'', ''tcp:8080'', ''tcp:8080''],
                Requests_get ''http://localhost:8080/ping'' (Some 1)]\<rparr>)"
  by (simp add: is_http_available_def probe_def setup_port_forwarding_def env_up_def
      answering_def empty_clipboard_def sample_env_def sample_process_def sample_response_def
      fresh_def DroidrunClipboard_init_def log_def set_http_available_def localhost_def
      forward_argv_def str_int_def Let_def)

lemma probe_env_down:
  "is_http_available env_down (fresh Auto) =
     (Inr False,
      \<lparr>clipboard = \<lparr>method = Auto, port = 8080, http_available = Some False\<rparr>,
       trace = [Import_requests,
                Subprocess_run [''adb'', ''forward'', ''tcp:8080'', ''tcp:8080''],
                Requests_get ''http://localhost:8080/ping'' (Some 1)]\<rparr>)"
  by (simp add: is_http_available_def probe_def setup_port_forwarding_def env_down_def
      sample_env_def sample_process_def fresh_def DroidrunClipboard_init_def
      log_def set_http_available_def localhost_def forward_argv_def str_int_def Let_def)

theorem facade_delegation_witness:
  "clipboard_get env_up (fresh Http) = get_http env_up (fresh Http)
   \<and> clipboard_set env_up ''hi'' (fresh Http) = set_http env_up ''hi'' (fresh Http)
   \<and> fst (is_http_available env_up (fresh Auto)) = Inr True
   \<and> clipboard_get env_up (fresh Auto)
       = get_http env_up (snd (is_http_available env_up (fresh Auto)))
   \<and> fst (is_http_available env_down (fresh Auto)) = Inr False
   \<and> clipboard_set env_down ''hi'' (fresh Auto)
       = set_adb env_down ''hi'' (snd (is_http_available env_down (fresh Auto)))
   \<and> http_requests (trace (snd (clipboard_set env_down ''hi'' (fresh Auto))))
       = [Requests_get ''http://localhost:8080/ping'' (Some 1)]
   \<and> http_requests (trace (snd (clipboard_get env_up (cached False)))) = []
   \<and> http_requests (trace (run_ops env_up [Op_get, Op_set ''hi'', Op_probe] (cached False)))
       = []
   \<and> clipboard_get env_down (fresh Adb) = get_adb env_down (fresh Adb)
   \<and> http_requests (trace (snd (clipboard_get env_down (fresh Adb)))) = []"
proof -
  have http: "clipboard_get env_up (fresh Http) = get_http env_up (fresh Http)
      \<and> clipboard_set env_up ''hi'' (fresh Http) = set_http env_up ''hi'' (fresh Http)"
    using facade_delegation [of "fresh Http" env_up "''hi''"] by (simp add: fresh_simps)
  have up: "fst (is_http_available env_up (fresh Auto)) = Inr True"
    by (simp add: probe_env_up)
  have auto_up: "clipboard_get env_up (fresh Auto)
      = get_http env_up (snd (is_http_available env_up (fresh Auto)))"
    using facade_delegation [of "fresh Auto" env_up "''hi''"] up by (simp add: fresh_simps)
  have down: "fst (is_http_available env_down (fresh Auto)) = Inr False"
    by (simp add: probe_env_down)
  have auto_down: "clipboard_set env_down ''hi'' (fresh Auto)
        = set_adb env_down ''hi'' (snd (is_http_available env_down (fresh Auto)))
      \<and> http_requests (trace (snd (clipboard_set env_down ''hi'' (fresh Auto))))
        = http_requests (trace (snd (is_http_available env_down (fresh Auto))))"
    using facade_delegation [of "fresh Auto" env_down "''hi''"] down
    unfolding fresh_simps by blast
  have ping: "http_requests (trace (snd (is_http_available env_down (fresh Auto))))
      = [Requests_get ''http://localhost:8080/ping'' (Some 1)]"
    by (simp add: probe_env_down http_requests_def)
  have known: "http_requests (trace (snd (clipboard_get env_up (cached False)))) = []
      \<and> http_requests
          (trace (run_ops env_up [Op_get, Op_set ''hi'', Op_probe] (cached False))) = []"
    using facade_delegation [of "cached False" env_up "''hi''"
        "[Op_get, Op_set ''hi'', Op_probe]"]
    unfolding cached_simps http_requests_def by simp
  have adb: "clipboard_get env_down (fresh Adb) = get_adb env_down (fresh Adb)
      \<and> http_requests (trace (snd (clipboard_get env_down (fresh Adb)))) = []"
    using facade_delegation [of "fresh Adb" env_down "''hi''"]
    by (simp add: fresh_simps http_requests_def cong: conj_cong)
  have auto_down_requests:
    "http_requests (trace (snd (clipboard_set env_down ''hi'' (fresh Auto))))
      = [Requests_get ''http://localhost:8080/ping'' (Some 1)]"
    using auto_down ping by (simp cong: conj_cong)
  show ?thesis
    using http up auto_up down auto_down auto_down_requests known adb by blast
qed

section \<open>Reading the clipboard through the shell transport\<close>

lemma after_first_None: "m \<noteq> [] \<Longrightarrow> after_first m x = None \<longleftrightarrow> \<not> str_contains m x"
  by (induction x) auto

lemma after_first_split1:
  "m \<noteq> [] \<Longrightarrow> after_first m x = Some js \<Longrightarrow> index1 (str_split1 m x) = Inr js"
proof (induction x)
  case Nil
  then show ?case by simp
next
  case (Cons c cs)
  show ?case
  proof (cases "take (length m) (c # cs) = m")
    case True
    with Cons.prems show ?thesis by (simp add: index1_def)
  next
    case False
    with Cons have "index1 (str_split1 m cs) = Inr js" by simp
    with False Cons.prems show ?thesis
      by (cases "str_split1 m cs") (auto simp: index1_def split: list.splits)
  qed
qed

lemma take_prefix_of_append: "n \<le> length xs \<Longrightarrow> take n (xs @ ys) = take n xs"
  by simp

text \<open>The payload, said without recursion: the marker does not start before \<open>pre\<close> ends.\<close>

lemma after_first_append:
  "m \<noteq> [] \<Longrightarrow> \<not> str_contains m (pre @ butlast m) \<Longrightarrow> after_first m (pre @ m @ js) = Some js"
proof (induction pre)
  case Nil
  then show ?case by (cases m) simp_all
next
  case (Cons c pre)
  have len: "length m \<le> length ((c # pre) @ butlast m)"
    using Cons.prems(1) by (cases m) simp_all
  have "take (length m) ((c # pre) @ m @ js) = take (length m) ((c # pre) @ butlast m)"
  proof -
    have "(c # pre) @ m @ js = ((c # pre) @ butlast m) @ (last m # js)"
      using Cons.prems(1) by simp
    moreover have "take (length m) (((c # pre) @ butlast m) @ (last m # js))
        = take (length m) ((c # pre) @ butlast m)"
      using len by (rule take_prefix_of_append)
    ultimately show ?thesis by (simp only:)
  qed
  with Cons show ?case by simp
qed

lemma scan_lines_line:
  "scan_lines env (x # rest) =
     (case after_first ''result='' x of
        None \<Rightarrow> scan_lines env rest
      | Some js \<Rightarrow>
          (case json_loads env js of
             Inl e \<Rightarrow> Inl e
           | Inr outer_json \<Rightarrow>
               (case py_get outer_json ''status'' PyNone of
                  Inl e \<Rightarrow> Inl e
                | Inr st \<Rightarrow>
                    if st = PyStr ''success'' then py_get outer_json ''data'' (PyStr [])
                    else scan_lines env rest)))"
proof (cases "after_first ''result='' x")
  case None
  then have "\<not> str_contains ''result='' x" by (simp add: after_first_None)
  with None show ?thesis by simp
next
  case (Some js)
  then have "str_contains ''result='' x"
    using after_first_None [of "''result=''" x] by auto
  moreover have "index1 (str_split1 ''result='' x) = Inr js"
    using Some by (simp add: after_first_split1)
  ultimately show ?thesis using Some by simp
qed

lemma scan_lines_passed_over:
  "\<forall>x \<in> set before. passed_over env x \<Longrightarrow>
   scan_lines env (before @ rest) = scan_lines env rest"
proof (induction before)
  case Nil
  then show ?case by simp
next
  case (Cons x before)
  then have "passed_over env x" and "scan_lines env (before @ rest) = scan_lines env rest"
    by simp_all
  then show ?case
    by (simp only: append_Cons scan_lines_line)
       (auto simp: passed_over_def py_get_def split: option.splits sum.splits pyval.splits)
qed

lemma scan_lines_success:
  "after_first ''result='' x = Some js \<Longrightarrow> json_loads env js = Inr (PyDict kvs) \<Longrightarrow>
   map_of kvs ''status'' = Some (PyStr ''success'') \<Longrightarrow>
   scan_lines env (x # rest) = Inr (case map_of kvs ''data'' of None \<Rightarrow> PyStr [] | Some v \<Rightarrow> v)"
  by (simp only: scan_lines_line) (simp add: py_get_def)

lemma get_adb_completed:
  "subprocess_run env (trace s) query_argv = Inr r \<Longrightarrow>
   fst (get_adb env s) =
     (if returncode r \<noteq> 0
      then Inl (Exception (''ADB GET failed: ADB command failed: '' @ stderr r))
      else (case scan_lines env (output_lines r) of
              Inl e \<Rightarrow> Inl (reraise ''ADB GET failed: '' e)
            | Inr content \<Rightarrow> Inr content))"
  by (simp add: get_adb_def output_lines_def Let_def split: sum.split)

text \<open>
  C3. When the query process completes: with a non-zero exit code \<^verbatim>\<open>_get_adb\<close> raises
  (\<^verbatim>\<open>ADB GET failed: ADB command failed: \<close> and the error output), which is not the
  result \<^verbatim>\<open>None\<close>; with exit code zero, when the loop reaches a line whose payload decodes
  to an object with status \<^verbatim>\<open>success\<close> (the lines before it being passed over), the
  result is that object's \<^verbatim>\<open>data\<close> entry as it is, the empty string included, and the
  empty string when the object has none; and when every line is passed over (no marker,
  or a status other than \<^verbatim>\<open>success\<close>) the result is \<^verbatim>\<open>None\<close>.
\<close>

theorem get_adb_result:
  assumes "subprocess_run env (trace s) query_argv = Inr r"
  shows "(returncode r \<noteq> 0 \<longrightarrow>
            fst (get_adb env s)
              = Inl (Exception (''ADB GET failed: ADB command failed: '' @ stderr r))
            \<and> fst (get_adb env s) \<noteq> Inr PyNone)
       \<and> (returncode r = 0 \<longrightarrow>
            (\<forall>before x after js kvs.
               output_lines r = before @ x # after
               \<and> (\<forall>y \<in> set before. passed_over env y)
               \<and> after_first ''result='' x = Some js
               \<and> json_loads env js = Inr (PyDict kvs)
               \<and> map_of kvs ''status'' = Some (PyStr ''success'')
               \<longrightarrow> fst (get_adb env s)
                     = Inr (case map_of kvs ''data'' of None \<Rightarrow> PyStr [] | Some v \<Rightarrow> v)))
       \<and> (returncode r = 0 \<and> (\<forall>y \<in> set (output_lines r). passed_over env y) \<longrightarrow>
            fst (get_adb env s) = Inr PyNone)"
proof (intro conjI impI allI)
  assume "returncode r \<noteq> 0"
  then show "fst (get_adb env s)
      = Inl (Exception (''ADB GET failed: ADB command failed: '' @ stderr r))"
    using assms by (simp add: get_adb_completed)
  then show "fst (get_adb env s) \<noteq> Inr PyNone" by simp
next
  fix before x after js kvs
  assume rc: "returncode r = 0"
    and h: "output_lines r = before @ x # after
      \<and> (\<forall>y \<in> set before. passed_over env y)
      \<and> after_first ''result='' x = Some js
      \<and> json_loads env js = Inr (PyDict kvs)
      \<and> map_of kvs ''status'' = Some (PyStr ''success'')"
  from h have "scan_lines env (output_lines r) = scan_lines env (x # after)"
    by (simp add: scan_lines_passed_over)
  also from h have "\<dots> = Inr (case map_of kvs ''data'' of None \<Rightarrow> PyStr [] | Some v \<Rightarrow> v)"
    using scan_lines_success [of x js env kvs after] by blast
  finally show "fst (get_adb env s)
      = Inr (case map_of kvs ''data'' of None \<Rightarrow> PyStr [] | Some v \<Rightarrow> v)"
    using assms rc by (simp add: get_adb_completed)
next
  assume h: "returncode r = 0 \<and> (\<forall>y \<in> set (output_lines r). passed_over env y)"
  then have "scan_lines env (output_lines r @ []) = scan_lines env []"
    using scan_lines_passed_over [of "output_lines r" env "[]"] by blast
  then show "fst (get_adb env s) = Inr PyNone"
    using assms h by (simp add: get_adb_completed)
qed

lemma success_line_payload:
  "after_first ''result='' success_line = Some ''{\"status\": \"success\", \"data\": \"\"}''"
  by (simp add: success_line_def)

lemma success_line_output:
  "output_lines (sample_process 0 (success_line @ [newline]) []) = [] @ success_line # []"
  by (simp add: output_lines_def sample_process_simps success_line_def str_strip_def
      isspace_def newline_def)

lemma empty_output: "output_lines (sample_process 0 [] []) = [[]]"
  by (simp add: output_lines_def sample_process_simps str_strip_def)

theorem get_adb_result_witness:
  "fst (get_adb env_adb_ok (fresh Adb)) = Inr (PyStr [])
   \<and> fst (get_adb env_down (fresh Adb)) = Inr PyNone
   \<and> fst (get_adb env_adb_fail (fresh Adb))
       = Inl (Exception ''ADB GET failed: ADB command failed: adb: no devices/emulators found'')"
proof -
  have ok: "subprocess_run env_adb_ok (trace (fresh Adb)) query_argv
      = Inr (sample_process 0 (success_line @ [newline]) [])"
    by (simp add: env_adb_ok_def sample_env_def)
  have "fst (get_adb env_adb_ok (fresh Adb))
      = Inr (case map_of [(''status'', PyStr ''success''), (''data'', PyStr [])] ''data'' of
               None \<Rightarrow> PyStr [] | Some v \<Rightarrow> v)"
  proof (rule get_adb_result [OF ok, THEN conjunct2, THEN conjunct1, rule_format])
    show "returncode (sample_process 0 (success_line @ [newline]) []) = 0"
      by (simp add: sample_process_simps)
    show "output_lines (sample_process 0 (success_line @ [newline]) []) = [] @ success_line # []
      \<and> (\<forall>y \<in> set []. passed_over env_adb_ok y)
      \<and> after_first ''result='' success_line
          = Some ''{\"status\": \"success\", \"data\": \"\"}''
      \<and> json_loads env_adb_ok ''{\"status\": \"success\", \"data\": \"\"}''
          = Inr (PyDict [(''status'', PyStr ''success''), (''data'', PyStr [])])
      \<and> map_of [(''status'', PyStr ''success''), (''data'', PyStr [])] ''status''
          = Some (PyStr ''success'')"
      by (simp add: success_line_output success_line_payload env_adb_ok_def sample_env_def
          sample_loads_def)
  qed
  then have 1: "fst (get_adb env_adb_ok (fresh Adb)) = Inr (PyStr [])" by simp
  have down: "subprocess_run env_down (trace (fresh Adb)) query_argv
      = Inr (sample_process 0 [] [])"
    by (simp add: env_down_def sample_env_def)
  have 2: "fst (get_adb env_down (fresh Adb)) = Inr PyNone"
    using get_adb_result [OF down]
    by (simp add: empty_output passed_over_def sample_process_simps)
  have fail: "subprocess_run env_adb_fail (trace (fresh Adb)) query_argv
      = Inr (sample_process 1 [] ''adb: no devices/emulators found'')"
    by (simp add: env_adb_fail_def sample_env_def)
  have 3: "fst (get_adb env_adb_fail (fresh Adb))
      = Inl (Exception ''ADB GET failed: ADB command failed: adb: no devices/emulators found'')"
    using get_adb_result [OF fail] by (simp add: sample_process_simps)
  show ?thesis using 1 2 3 by blast
qed

section \<open>Failure and success in the HTTP transport\<close>

lemma starts_ignoring_case_lower:
  "starts_ignoring_case p s \<longleftrightarrow> take (length p) (str_lower s) = str_lower p"
proof (induction p s rule: starts_ignoring_case.induct)
  case (3 p ps c cs)
  then show ?case by (auto simp: same_letter_def str_lower_def)
qed (simp_all add: str_lower_def)

lemma contains_ignoring_case_lower:
  "str_lower p = p \<Longrightarrow> str_contains p (str_lower s) \<longleftrightarrow> contains_ignoring_case p s"
proof (induction s)
  case Nil
  then show ?case by (simp add: str_lower_def)
next
  case (Cons c cs)
  have "str_contains p (str_lower (c # cs))
      \<longleftrightarrow> take (length p) (str_lower (c # cs)) = p \<or> str_contains p (str_lower cs)"
    by (simp add: str_lower_def)
  also have "\<dots> \<longleftrightarrow> starts_ignoring_case p (c # cs) \<or> contains_ignoring_case p cs"
    using Cons by (simp add: starts_ignoring_case_lower)
  finally show ?case by simp
qed

lemma lower_success: "str_lower ''success'' = ''success''"
  by (simp add: str_lower_def lower_char_def char_of_eq_iff)

lemma success_in_lower:
  "str_contains ''success'' (str_lower body) \<longleftrightarrow> contains_ignoring_case ''success'' body"
  using lower_success by (rule contains_ignoring_case_lower)

text \<open>
  What the two notions say: a lower case letter matches itself and its capital, and
  containment, case ignored, is the existence of a segment that matches letter by letter.
\<close>

lemma of_char_eq_iff_char_of:
  fixes n :: nat
  assumes "n < 256"
  shows "(of_char c :: nat) = n \<longleftrightarrow> c = char_of n"
proof
  assume "(of_char c :: nat) = n"
  then have "char_of (of_char c :: nat) = (char_of n :: char)" by (simp only:)
  then show "c = char_of n" by simp
next
  assume "c = char_of n"
  then have "(of_char c :: nat) = n mod 256" by (simp only: of_char_of)
  then show "(of_char c :: nat) = n" using assms by simp
qed

lemma lower_char_code:
  "lower_char c =
     char_of (if (65 \<le> (of_char c :: nat) \<and> (of_char c :: nat) \<le> 90)
                 \<or> (192 \<le> (of_char c :: nat) \<and> (of_char c :: nat) \<le> 222
                     \<and> (of_char c :: nat) \<noteq> 215)
              then (of_char c :: nat) + 32 else of_char c)"
  by (simp add: lower_char_def Let_def)

lemma lower_char_is_letter:
  fixes l :: char
  assumes "97 \<le> (of_char l :: nat)" and "(of_char l :: nat) \<le> 122"
  shows "lower_char c = l \<longleftrightarrow> c = l \<or> c = char_of ((of_char l :: nat) - 32)"
proof -
  define n where "n = (of_char c :: nat)"
  define k where "k = (of_char l :: nat)"
  define m where "m = (if (65 \<le> n \<and> n \<le> 90) \<or> (192 \<le> n \<and> n \<le> 222 \<and> n \<noteq> 215)
                       then n + 32 else n)"
  have n: "n < 256" unfolding n_def by simp
  have k: "97 \<le> k" "k \<le> 122" using assms by (simp_all add: k_def)
  have m: "m < 256" using n unfolding m_def by auto
  have "lower_char c = char_of m"
    unfolding m_def n_def by (rule lower_char_code)
  then have "lower_char c = l \<longleftrightarrow> k = m"
    using of_char_eq_iff_char_of [OF m, of l] by (auto simp: k_def)
  also have "\<dots> \<longleftrightarrow> n = k \<or> n = k - 32"
    using k n unfolding m_def by auto
  also have "n = k \<longleftrightarrow> c = l"
    unfolding n_def k_def by auto
  also have "n = k - 32 \<longleftrightarrow> c = char_of (k - 32)"
    unfolding n_def using of_char_eq_iff_char_of [of "k - 32" c] k by auto
  finally show ?thesis unfolding k_def .
qed

lemma same_letter_lower:
  fixes l :: char
  assumes "97 \<le> (of_char l :: nat)" and "(of_char l :: nat) \<le> 122"
  shows "same_letter l c \<longleftrightarrow> c = l \<or> c = char_of ((of_char l :: nat) - 32)"
proof -
  have "lower_char l = l" using assms by (simp add: lower_char_def)
  then have "same_letter l c \<longleftrightarrow> lower_char c = l" by (auto simp: same_letter_def)
  then show ?thesis using assms by (simp add: lower_char_is_letter)
qed

text \<open>For instance, the first letter of the word matches \<open>s\<close> and \<open>S\<close> and nothing else.\<close>

lemma same_letter_s: "same_letter (CHR ''s'') c \<longleftrightarrow> c = CHR ''s'' \<or> c = CHR ''S''"
proof -
  have "char_of (83 :: nat) = CHR ''S''" by (simp add: char_of_eq_iff)
  then show ?thesis by (simp add: same_letter_lower)
qed

lemma starts_ignoring_case_iff:
  "starts_ignoring_case p s \<longleftrightarrow> (\<exists>w v. s = w @ v \<and> list_all2 same_letter p w)"
proof (induction p s rule: starts_ignoring_case.induct)
  case (1 s)
  then show ?case by simp
next
  case (2 p ps)
  then show ?case by simp
next
  case (3 p ps c cs)
  show ?case
  proof
    assume "starts_ignoring_case (p # ps) (c # cs)"
    then obtain w v where "same_letter p c" "cs = w @ v" "list_all2 same_letter ps w"
      using 3 by auto
    then have "c # cs = (c # w) @ v \<and> list_all2 same_letter (p # ps) (c # w)" by simp
    then show "\<exists>w v. c # cs = w @ v \<and> list_all2 same_letter (p # ps) w" by blast
  next
    assume "\<exists>w v. c # cs = w @ v \<and> list_all2 same_letter (p # ps) w"
    then obtain w v where w: "c # cs = w @ v" "list_all2 same_letter (p # ps) w" by blast
    then obtain w' where "w = c # w'" "same_letter p c" "list_all2 same_letter ps w'"
      by (cases w) auto
    with w 3 show "starts_ignoring_case (p # ps) (c # cs)" by auto
  qed
qed

lemma contains_ignoring_case_iff:
  "contains_ignoring_case p s
     \<longleftrightarrow> (\<exists>u w v. s = u @ w @ v \<and> list_all2 same_letter p w)"
proof (induction s)
  case Nil
  then show ?case by (auto simp: list_all2_Nil2)
next
  case (Cons c cs)
  show ?case
  proof
    assume "contains_ignoring_case p (c # cs)"
    then consider "starts_ignoring_case p (c # cs)" | "contains_ignoring_case p cs" by auto
    then show "\<exists>u w v. c # cs = u @ w @ v \<and> list_all2 same_letter p w"
    proof cases
      case 1
      then obtain w v where "c # cs = [] @ w @ v \<and> list_all2 same_letter p w"
        by (auto simp: starts_ignoring_case_iff)
      then show ?thesis by blast
    next
      case 2
      then obtain u w v where "cs = u @ w @ v" "list_all2 same_letter p w"
        using Cons by blast
      then have "c # cs = (c # u) @ w @ v \<and> list_all2 same_letter p w" by simp
      then show ?thesis by blast
    qed
  next
    assume "\<exists>u w v. c # cs = u @ w @ v \<and> list_all2 same_letter p w"
    then obtain u w v where h: "c # cs = u @ w @ v" "list_all2 same_letter p w" by blast
    show "contains_ignoring_case p (c # cs)"
    proof (cases u)
      case Nil
      with h have "starts_ignoring_case p (c # cs)"
        by (auto simp: starts_ignoring_case_iff)
      then show ?thesis by simp
    next
      case (Cons a u')
      with h have "cs = u' @ w @ v" by simp
      with h Cons.IH have "contains_ignoring_case p cs" by blast
      then show ?thesis by simp
    qed
  qed
qed

lemma raise_for_status_Some:
  "400 \<le> status_code r \<and> status_code r < 600 \<Longrightarrow> \<exists>m. raise_for_status r = Some (Exception m)"
  by (auto simp: raise_for_status_def)

lemma raise_for_status_None:
  "\<not> (400 \<le> status_code r \<and> status_code r < 600) \<Longrightarrow> raise_for_status r = None"
  by (auto simp: raise_for_status_def)

lemma set_http_posted:
  assumes "import_requests env (trace s) = None"
    and "requests_post env (trace s @ [Import_requests])
           (''http://localhost:'' @ str_int (port (clipboard s)) @ ''/clipboard/set'')
           (PyDict [(''text'', PyStr t)]) [(''Content-Type'', ''application/json'')] = Inr r"
  shows "set_http env t s =
     (case set_http_response r of
        Inl e \<Rightarrow> Inl (reraise ''HTTP SET failed: '' e)
      | Inr ok \<Rightarrow> Inr ok,
      s\<lparr>trace := trace s @ [Import_requests,
           Requests_post
             (''http://localhost:'' @ str_int (port (clipboard s)) @ ''/clipboard/set'')
             (PyDict [(''text'', PyStr t)]) [(''Content-Type'', ''application/json'')]]\<rparr>)"
  using assms by (simp add: set_http_def Let_def log_def localhost_def split: sum.split)

text \<open>
  C4, as amended. When the import succeeds and the request returns a response,
  \<^verbatim>\<open>_set_http\<close> has sent one \<^verbatim>\<open>POST /clipboard/set\<close> whose JSON body is the dict with
  the text under the key \<^verbatim>\<open>text\<close>; for every response with a status from 400 to 599 it
  raises an exception whose message starts with \<^verbatim>\<open>HTTP SET failed: \<close>; and for every other
  response (every 2xx among them) its result is whether the body contains the word
  \<^verbatim>\<open>success\<close>, case ignored.
\<close>

theorem set_http_result:
  assumes "import_requests env (trace s) = None"
    and "requests_post env (trace s @ [Import_requests])
           (''http://localhost:'' @ str_int (port (clipboard s)) @ ''/clipboard/set'')
           (PyDict [(''text'', PyStr t)]) [(''Content-Type'', ''application/json'')] = Inr r"
  shows "trace (snd (set_http env t s)) =
           trace s @ [Import_requests,
             Requests_post
               (''http://localhost:'' @ str_int (port (clipboard s)) @ ''/clipboard/set'')
               (PyDict [(''text'', PyStr t)]) [(''Content-Type'', ''application/json'')]]
       \<and> (400 \<le> status_code r \<and> status_code r < 600 \<longrightarrow>
            (\<exists>m. fst (set_http env t s) = Inl (Exception (''HTTP SET failed: '' @ m))))
       \<and> (\<not> (400 \<le> status_code r \<and> status_code r < 600) \<longrightarrow>
            fst (set_http env t s) = Inr (contains_ignoring_case ''success'' (text r)))"
proof (intro conjI impI)
  show "trace (snd (set_http env t s)) =
      trace s @ [Import_requests,
        Requests_post
          (''http://localhost:'' @ str_int (port (clipboard s)) @ ''/clipboard/set'')
          (PyDict [(''text'', PyStr t)]) [(''Content-Type'', ''application/json'')]]"
    by (simp add: set_http_posted [OF assms])
next
  assume "400 \<le> status_code r \<and> status_code r < 600"
  then obtain m where "raise_for_status r = Some (Exception m)"
    using raise_for_status_Some by blast
  then have "fst (set_http env t s) = Inl (Exception (''HTTP SET failed: '' @ m))"
    by (simp add: set_http_posted [OF assms] set_http_response_def)
  then show "\<exists>m. fst (set_http env t s) = Inl (Exception (''HTTP SET failed: '' @ m))" ..
next
  assume "\<not> (400 \<le> status_code r \<and> status_code r < 600)"
  then have "raise_for_status r = None" by (rule raise_for_status_None)
  then show "fst (set_http env t s) = Inr (contains_ignoring_case ''success'' (text r))"
    by (simp add: set_http_posted [OF assms] set_http_response_def success_in_lower)
qed

text \<open>
  C4 as stated fails: \<^verbatim>\<open>raise_for_status\<close> raises for the statuses 400 to 599 only, so a
  \<^verbatim>\<open>300\<close> response whose body says success makes \<^verbatim>\<open>_set_http\<close> return \<^verbatim>\<open>True\<close>.
\<close>

theorem set_http_multiple_choices_counterexample:
  "status_code multiple_choices = 300
   \<and> fst (set_http (answering multiple_choices) ''hi'' (fresh Http)) = Inr True"
proof -
  have "str_contains ''success'' (str_lower (text multiple_choices)) = True"
    by code_simp
  then show ?thesis
    by (simp add: set_http_def set_http_response_def raise_for_status_def answering_simps
        Let_def) (simp add: multiple_choices_def sample_response_simps)
qed

theorem set_http_result_witness:
  "(\<exists>m. fst (set_http (answering not_found) ''hi'' (fresh Http))
          = Inl (Exception (''HTTP SET failed: '' @ m)))
   \<and> fst (set_http (answering empty_clipboard) ''hi'' (fresh Http)) = Inr True
   \<and> fst (set_http (answering capitals) ''hi'' (fresh Http)) = Inr True
   \<and> fst (set_http (answering denied) ''hi'' (fresh Http)) = Inr False
   \<and> trace (snd (set_http (answering empty_clipboard) ''hi'' (fresh Http)))
       = [Import_requests,
          Requests_post ''http://localhost:8080/clipboard/set'' (PyDict [(''text'', PyStr ''hi'')])
            [(''Content-Type'', ''application/json'')]]"
proof -
  have inst: "trace (snd (set_http (answering r) ''hi'' (fresh Http)))
        = [Import_requests,
           Requests_post ''http://localhost:8080/clipboard/set''
             (PyDict [(''text'', PyStr ''hi'')]) [(''Content-Type'', ''application/json'')]]
      \<and> (400 \<le> status_code r \<and> status_code r < 600 \<longrightarrow>
           (\<exists>m. fst (set_http (answering r) ''hi'' (fresh Http))
                  = Inl (Exception (''HTTP SET failed: '' @ m))))
      \<and> (\<not> (400 \<le> status_code r \<and> status_code r < 600) \<longrightarrow>
           fst (set_http (answering r) ''hi'' (fresh Http))
             = Inr (contains_ignoring_case ''success'' (text r)))" for r
    using set_http_result [of "answering r" "fresh Http" "''hi''" r]
    by (simp add: answering_simps fresh_port fresh_simps)
  have a: "contains_ignoring_case ''success'' (text empty_clipboard) = True"
    by code_simp
  have b: "contains_ignoring_case ''success'' (text capitals) = True"
    by code_simp
  have c: "contains_ignoring_case ''success'' (text denied) = False"
    by code_simp
  have 1: "\<exists>m. fst (set_http (answering not_found) ''hi'' (fresh Http))
      = Inl (Exception (''HTTP SET failed: '' @ m))"
    using inst [of not_found] by (simp add: not_found_def sample_response_simps)
  have 2: "fst (set_http (answering empty_clipboard) ''hi'' (fresh Http)) = Inr True"
    using inst [of empty_clipboard] unfolding a
    by (simp add: empty_clipboard_def sample_response_simps)
  have 3: "fst (set_http (answering capitals) ''hi'' (fresh Http)) = Inr True"
    using inst [of capitals] unfolding b by (simp add: capitals_def sample_response_simps)
  have 4: "fst (set_http (answering denied) ''hi'' (fresh Http)) = Inr False"
    using inst [of denied] unfolding c by (simp add: denied_def sample_response_simps)
  show ?thesis using 1 2 3 4 inst [of empty_clipboard] by blast
qed

lemma get_http_got:
  assumes "import_requests env (trace s) = None"
    and "requests_get env (trace s @ [Import_requests])
           (''http://localhost:'' @ str_int (port (clipboard s)) @ ''/clipboard/get'') None
         = Inr r"
  shows "get_http env s =
     (case get_http_response r of
        Inl e \<Rightarrow> Inl (reraise ''HTTP GET failed: '' e)
      | Inr content \<Rightarrow> Inr content,
      s\<lparr>trace := trace s @ [Import_requests,
           Requests_get
             (''http://localhost:'' @ str_int (port (clipboard s)) @ ''/clipboard/get'')
             None]\<rparr>)"
  using assms by (simp add: get_http_def Let_def log_def localhost_def split: sum.split)

text \<open>
  C5, as amended. When the import succeeds and the request returns a response: for
  every response with a status from 400 to 599 \<^verbatim>\<open>_get_http\<close> raises an exception whose
  message starts with \<^verbatim>\<open>HTTP GET failed: \<close>; for every other response (every 2xx among
  them) whose body decodes to a JSON object, the result is the object's \<^verbatim>\<open>data\<close> entry
  as it is (the empty string when there is none) when its \<^verbatim>\<open>status\<close> is \<^verbatim>\<open>success\<close>, and
  \<^verbatim>\<open>None\<close> for any other status.
\<close>

theorem get_http_result:
  assumes "import_requests env (trace s) = None"
    and "requests_get env (trace s @ [Import_requests])
           (''http://localhost:'' @ str_int (port (clipboard s)) @ ''/clipboard/get'') None
         = Inr r"
  shows "(400 \<le> status_code r \<and> status_code r < 600 \<longrightarrow>
            (\<exists>m. fst (get_http env s) = Inl (Exception (''HTTP GET failed: '' @ m))))
       \<and> (\<not> (400 \<le> status_code r \<and> status_code r < 600) \<longrightarrow>
            (\<forall>kvs. json r = Inr (PyDict kvs) \<longrightarrow>
               fst (get_http env s) =
                 Inr (if map_of kvs ''status'' = Some (PyStr ''success'')
                      then (case map_of kvs ''data'' of None \<Rightarrow> PyStr [] | Some v \<Rightarrow> v)
                      else PyNone)))"
proof (intro conjI impI allI)
  assume "400 \<le> status_code r \<and> status_code r < 600"
  then obtain m where "raise_for_status r = Some (Exception m)"
    using raise_for_status_Some by blast
  then have "fst (get_http env s) = Inl (Exception (''HTTP GET failed: '' @ m))"
    by (simp add: get_http_got [OF assms] get_http_response_def)
  then show "\<exists>m. fst (get_http env s) = Inl (Exception (''HTTP GET failed: '' @ m))" ..
next
  fix kvs
  assume "\<not> (400 \<le> status_code r \<and> status_code r < 600)" and j: "json r = Inr (PyDict kvs)"
  then have "raise_for_status r = None" by (simp add: raise_for_status_None)
  with j show "fst (get_http env s) =
      Inr (if map_of kvs ''status'' = Some (PyStr ''success'')
           then (case map_of kvs ''data'' of None \<Rightarrow> PyStr [] | Some v \<Rightarrow> v)
           else PyNone)"
    by (simp add: get_http_got [OF assms] get_http_response_def py_get_def split: option.split)
qed

text \<open>
  C5 as stated fails for the same reason: on a \<^verbatim>\<open>300\<close> response whose body decodes to a
  success object \<^verbatim>\<open>_get_http\<close> returns the data.
\<close>

theorem get_http_multiple_choices_counterexample:
  "status_code multiple_choices = 300
   \<and> fst (get_http (answering multiple_choices) (fresh Http)) = Inr (PyStr ''hi'')"
  by (simp add: get_http_def get_http_response_def raise_for_status_def answering_simps
      multiple_choices_def sample_response_simps Let_def py_get_def)

theorem get_http_result_witness:
  "(\<exists>m. fst (get_http (answering not_found) (fresh Http))
          = Inl (Exception (''HTTP GET failed: '' @ m)))
   \<and> fst (get_http (answering empty_clipboard) (fresh Http)) = Inr (PyStr [])
   \<and> fst (get_http (answering denied) (fresh Http)) = Inr PyNone"
proof -
  have inst: "(400 \<le> status_code r \<and> status_code r < 600 \<longrightarrow>
           (\<exists>m. fst (get_http (answering r) (fresh Http))
                  = Inl (Exception (''HTTP GET failed: '' @ m))))
      \<and> (\<not> (400 \<le> status_code r \<and> status_code r < 600) \<longrightarrow>
           (\<forall>kvs. json r = Inr (PyDict kvs) \<longrightarrow>
              fst (get_http (answering r) (fresh Http)) =
                Inr (if map_of kvs ''status'' = Some (PyStr ''success'')
                     then (case map_of kvs ''data'' of None \<Rightarrow> PyStr [] | Some v \<Rightarrow> v)
                     else PyNone)))" for r
    using get_http_result [of "answering r" "fresh Http" r]
    by (simp add: answering_simps fresh_port fresh_simps)
  have 1: "\<exists>m. fst (get_http (answering not_found) (fresh Http))
      = Inl (Exception (''HTTP GET failed: '' @ m))"
    using inst [of not_found] by (simp add: not_found_def sample_response_simps)
  have 2: "fst (get_http (answering empty_clipboard) (fresh Http)) = Inr (PyStr [])"
    using inst [of empty_clipboard] by (simp add: empty_clipboard_def sample_response_simps)
  have 3: "fst (get_http (answering denied) (fresh Http)) = Inr PyNone"
    using inst [of denied] by (simp add: denied_def sample_response_simps)
  show ?thesis using 1 2 3 by blast
qed

section \<open>The availability probe\<close>

lemma probe_unfolded:
  "probe env s =
     (case import_requests env (trace s) of
        Some e \<Rightarrow> (Inl e, s\<lparr>trace := trace s @ [Import_requests]\<rparr>)
      | None \<Rightarrow>
          (case subprocess_run env (trace s @ [Import_requests]) (forward_argv s) of
             Inl e \<Rightarrow>
               (Inl e, s\<lparr>trace := trace s @ [Import_requests, Subprocess_run (forward_argv s)]\<rparr>)
           | Inr cp \<Rightarrow>
               (case requests_get env
                       (trace s @ [Import_requests, Subprocess_run (forward_argv s)])
                       (localhost s ''/ping'') (Some 1) of
                  Inl e \<Rightarrow>
                    (Inl e, s\<lparr>trace := trace s @ [Import_requests,
                       Subprocess_run (forward_argv s),
                       Requests_get (localhost s ''/ping'') (Some 1)]\<rparr>)
                | Inr r \<Rightarrow>
                    (Inr (),
                     s\<lparr>clipboard := (clipboard s)\<lparr>http_available := Some (status_code r = 200)\<rparr>,
                       trace := trace s @ [Import_requests, Subprocess_run (forward_argv s),
                         Requests_get (localhost s ''/ping'') (Some 1)]\<rparr>))))"
  by (simp add: probe_def setup_port_forwarding_def log_def set_http_available_def
      localhost_def forward_argv_def split: option.split sum.split)

lemma is_http_available_unknown:
  "http_available (clipboard s) = None \<Longrightarrow>
   is_http_available env s =
     (case probe env s of
        (Inl e, s1) \<Rightarrow> (Inr False, set_http_available False s1)
      | (Inr u, s1) \<Rightarrow> (Inr (http_available (clipboard s1) = Some True), s1))"
  by (simp add: is_http_available_def Let_def set_http_available_def split: prod.split sum.split)

text \<open>
  C6. The probe never raises: it returns \<^verbatim>\<open>True\<close> or \<^verbatim>\<open>False\<close>. On a first probe (the flag
  not set yet) it returns \<^verbatim>\<open>True\<close> exactly when its last call was \<^verbatim>\<open>GET /ping\<close> with a
  timeout of one second and the answer to that call was a response with status 200; and
  whenever the body of its \<^verbatim>\<open>try\<close> raises, whatever the exception, it returns \<^verbatim>\<open>False\<close>
  and sets the flag so.
\<close>

theorem probe_result:
  "(\<exists>b. fst (is_http_available env s) = Inr b)
   \<and> (http_available (clipboard s) = None \<longrightarrow>
        (fst (is_http_available env s) = Inr True
         \<longleftrightarrow> (\<exists>tr r.
               trace (snd (is_http_available env s))
                 = tr @ [Requests_get
                           (''http://localhost:'' @ str_int (port (clipboard s)) @ ''/ping'')
                           (Some 1)]
               \<and> requests_get env tr
                   (''http://localhost:'' @ str_int (port (clipboard s)) @ ''/ping'') (Some 1)
                 = Inr r
               \<and> status_code r = 200)))
   \<and> (http_available (clipboard s) = None \<longrightarrow>
        (\<forall>e. fst (probe env s) = Inl e \<longrightarrow>
           fst (is_http_available env s) = Inr False
           \<and> http_available (clipboard (snd (is_http_available env s))) = Some False))"
proof -
  have returns: "\<exists>b. fst (is_http_available env s) = Inr b"
    using is_http_available_returns [of env s] by blast
  have ping: "fst (is_http_available env s) = Inr True
    \<longleftrightarrow> (\<exists>tr r.
          trace (snd (is_http_available env s))
            = tr @ [Requests_get
                      (''http://localhost:'' @ str_int (port (clipboard s)) @ ''/ping'')
                      (Some 1)]
          \<and> requests_get env tr
              (''http://localhost:'' @ str_int (port (clipboard s)) @ ''/ping'') (Some 1)
            = Inr r
          \<and> status_code r = 200)"
    if unknown: "http_available (clipboard s) = None"
    unfolding is_http_available_unknown [OF unknown] probe_unfolded
    by (auto simp: localhost_def set_http_available_def split: option.split sum.split)
  have raised: "fst (is_http_available env s) = Inr False
    \<and> http_available (clipboard (snd (is_http_available env s))) = Some False"
    if "http_available (clipboard s) = None" and "fst (probe env s) = Inl e" for e
    using that by (cases "probe env s")
       (simp add: is_http_available_unknown set_http_available_def)
  show ?thesis using returns ping raised by blast
qed

theorem probe_result_witness:
  "fst (is_http_available env_up (fresh Auto)) = Inr True
   \<and> trace (snd (is_http_available env_up (fresh Auto)))
       = [Import_requests, Subprocess_run [''adb'', ''forward'', ''tcp:8080'', ''tcp:8080'']]
         @ [Requests_get ''http://localhost:8080/ping'' (Some 1)]
   \<and> fst (is_http_available env_down (fresh Auto)) = Inr False
   \<and> http_available (clipboard (snd (is_http_available env_down (fresh Auto)))) = Some False"
proof -
  have up: "\<exists>tr r.
      trace (snd (is_http_available env_up (fresh Auto)))
        = tr @ [Requests_get
                  (''http://localhost:'' @ str_int (port (clipboard (fresh Auto))) @ ''/ping'')
                  (Some 1)]
      \<and> requests_get env_up tr
          (''http://localhost:'' @ str_int (port (clipboard (fresh Auto))) @ ''/ping'') (Some 1)
        = Inr r
      \<and> status_code r = 200"
  proof (intro exI conjI)
    show "trace (snd (is_http_available env_up (fresh Auto)))
      = [Import_requests, Subprocess_run [''adb'', ''forward'', ''tcp:8080'', ''tcp:8080'']]
        @ [Requests_get
             (''http://localhost:'' @ str_int (port (clipboard (fresh Auto))) @ ''/ping'')
             (Some 1)]"
      by (simp add: probe_env_up fresh_port)
    show "requests_get env_up
        [Import_requests, Subprocess_run [''adb'', ''forward'', ''tcp:8080'', ''tcp:8080'']]
        (''http://localhost:'' @ str_int (port (clipboard (fresh Auto))) @ ''/ping'') (Some 1)
      = Inr empty_clipboard"
      by (simp add: env_up_def answering_simps)
    show "status_code empty_clipboard = 200"
      by (simp add: empty_clipboard_def sample_response_simps)
  qed
  have "fst (is_http_available env_up (fresh Auto)) = Inr True"
    using probe_result [of env_up "fresh Auto"] up by (simp only: fresh_simps)
  moreover have "fst (probe env_down (fresh Auto)) = Inl (Exception ''Connection refused'')"
    by (simp add: probe_unfolded env_down_def sample_env_simps)
  then have "fst (is_http_available env_down (fresh Auto)) = Inr False
      \<and> http_available (clipboard (snd (is_http_available env_down (fresh Auto)))) = Some False"
    using probe_result [of env_down "fresh Auto"] by (simp only: fresh_simps)
  moreover have "trace (snd (is_http_available env_up (fresh Auto)))
       = [Import_requests, Subprocess_run [''adb'', ''forward'', ''tcp:8080'', ''tcp:8080'']]
         @ [Requests_get ''http://localhost:8080/ping'' (Some 1)]"
    by (simp add: probe_env_up)
  ultimately show ?thesis by blast
qed

section \<open>The port forward before the probe\<close>

text \<open>
  C7 as stated fails: when \<^verbatim>\<open>subprocess.run\<close> itself raises (the \<^verbatim>\<open>adb\<close> executable is not
  found), the bare \<^verbatim>\<open>except:\<close> of the probe ends it. The probe reports unavailable, and
  its only calls are the import and the port forward: \<^verbatim>\<open>GET /ping\<close> is not attempted,
  though here the server would have answered 200.
\<close>

theorem probe_without_adb_counterexample:
  "is_http_available env_no_adb (fresh Auto) =
     (Inr False,
      \<lparr>clipboard = \<lparr>method = Auto, port = 8080, http_available = Some False\<rparr>,
       trace = [Import_requests,
                Subprocess_run [''adb'', ''forward'', ''tcp:8080'', ''tcp:8080'']]\<rparr>)
   \<and> requests_get env_no_adb
         [Import_requests, Subprocess_run [''adb'', ''forward'', ''tcp:8080'', ''tcp:8080'']]
         ''http://localhost:8080/ping'' (Some 1) = Inr empty_clipboard
   \<and> status_code empty_clipboard = 200"
  by (simp add: is_http_available_def probe_unfolded env_no_adb_def sample_env_simps
      forward_argv_def fresh_def DroidrunClipboard_init_def set_http_available_def str_int_def
      empty_clipboard_def sample_response_simps)

text \<open>
  C7, as amended. On a first probe where the import has succeeded: for every outcome of
  the port forward in which the \<^verbatim>\<open>adb\<close> process completes, whatever its exit code, the
  probe goes on to \<^verbatim>\<open>GET /ping\<close> and decides by the answer; when starting the process
  raises, the probe reports unavailable without the request (and does not raise).
\<close>

theorem port_forward_outcome:
  assumes "http_available (clipboard s) = None" and "import_requests env (trace s) = None"
  shows "(\<forall>cp. subprocess_run env (trace s @ [Import_requests]) (forward_argv s) = Inr cp \<longrightarrow>
            trace (snd (is_http_available env s))
              = trace s @ [Import_requests, Subprocess_run (forward_argv s),
                  Requests_get
                    (''http://localhost:'' @ str_int (port (clipboard s)) @ ''/ping'') (Some 1)]
            \<and> (fst (is_http_available env s) = Inr True
                 \<longleftrightarrow> (\<exists>r. requests_get env
                             (trace s @ [Import_requests, Subprocess_run (forward_argv s)])
                             (''http://localhost:'' @ str_int (port (clipboard s)) @ ''/ping'')
                             (Some 1) = Inr r
                          \<and> status_code r = 200)))
       \<and> (\<forall>e. subprocess_run env (trace s @ [Import_requests]) (forward_argv s) = Inl e \<longrightarrow>
            fst (is_http_available env s) = Inr False
            \<and> trace (snd (is_http_available env s))
                = trace s @ [Import_requests, Subprocess_run (forward_argv s)])"
proof -
  have completed: "trace (snd (is_http_available env s))
        = trace s @ [Import_requests, Subprocess_run (forward_argv s),
            Requests_get
              (''http://localhost:'' @ str_int (port (clipboard s)) @ ''/ping'') (Some 1)]
      \<and> (fst (is_http_available env s) = Inr True
           \<longleftrightarrow> (\<exists>r. requests_get env
                       (trace s @ [Import_requests, Subprocess_run (forward_argv s)])
                       (''http://localhost:'' @ str_int (port (clipboard s)) @ ''/ping'')
                       (Some 1) = Inr r
                    \<and> status_code r = 200))"
    if "subprocess_run env (trace s @ [Import_requests]) (forward_argv s) = Inr cp" for cp
    unfolding is_http_available_unknown [OF assms(1)] probe_unfolded
    using assms(2) that
    by (auto simp: localhost_def set_http_available_def split: sum.split)
  have raised: "fst (is_http_available env s) = Inr False
      \<and> trace (snd (is_http_available env s))
          = trace s @ [Import_requests, Subprocess_run (forward_argv s)]"
    if "subprocess_run env (trace s @ [Import_requests]) (forward_argv s) = Inl e" for e
    unfolding is_http_available_unknown [OF assms(1)] probe_unfolded
    using assms(2) that by (simp add: set_http_available_def)
  show ?thesis using completed raised by blast
qed

theorem port_forward_outcome_witness:
  "returncode (sample_process 1 [] ''adb: error: no devices/emulators found'') \<noteq> 0
   \<and> trace (snd (is_http_available env_forward_failed (fresh Auto)))
       = [Import_requests, Subprocess_run [''adb'', ''forward'', ''tcp:8080'', ''tcp:8080''],
          Requests_get ''http://localhost:8080/ping'' (Some 1)]
   \<and> fst (is_http_available env_forward_failed (fresh Auto)) = Inr True"
proof -
  have argv: "forward_argv (fresh Auto) = [''adb'', ''forward'', ''tcp:8080'', ''tcp:8080'']"
    by (simp add: forward_argv_def fresh_port)
  have "trace (snd (is_http_available env_forward_failed (fresh Auto)))
        = trace (fresh Auto) @ [Import_requests, Subprocess_run (forward_argv (fresh Auto)),
            Requests_get
              (''http://localhost:'' @ str_int (port (clipboard (fresh Auto))) @ ''/ping'')
              (Some 1)]
      \<and> (fst (is_http_available env_forward_failed (fresh Auto)) = Inr True
           \<longleftrightarrow> (\<exists>r. requests_get env_forward_failed
                       (trace (fresh Auto)
                        @ [Import_requests, Subprocess_run (forward_argv (fresh Auto))])
                       (''http://localhost:'' @ str_int (port (clipboard (fresh Auto)))
                        @ ''/ping'')
                       (Some 1) = Inr r
                    \<and> status_code r = 200))"
  proof (rule port_forward_outcome [THEN conjunct1, rule_format])
    show "http_available (clipboard (fresh Auto)) = None" by (simp add: fresh_simps)
    show "import_requests env_forward_failed (trace (fresh Auto)) = None"
      by (simp add: env_forward_failed_def sample_env_simps)
    show "subprocess_run env_forward_failed (trace (fresh Auto) @ [Import_requests])
        (forward_argv (fresh Auto))
      = Inr (sample_process 1 [] ''adb: error: no devices/emulators found'')"
      by (simp add: env_forward_failed_def sample_env_simps)
  qed
  then show ?thesis
    by (simp add: argv fresh_port fresh_simps env_forward_failed_def sample_env_simps
        empty_clipboard_def sample_response_simps sample_process_simps)
qed

section \<open>The memoized flag\<close>

lemma run_op_keeps_flag:
  assumes "http_available (clipboard s) = Some b"
  shows "http_available (clipboard (run_op env x s)) = Some b"
proof (cases x)
  case Op_get
  then show ?thesis
    using assms is_http_available_cached [OF assms, of env]
    by (simp add: clipboard_get_def clipboard_get_http clipboard_get_adb)
next
  case (Op_set t)
  then show ?thesis
    using assms is_http_available_cached [OF assms, of env]
    by (simp add: clipboard_set_def clipboard_set_http clipboard_set_adb)
next
  case Op_probe
  then show ?thesis
    using assms is_http_available_cached [OF assms, of env] by simp
qed

lemma run_ops_keep_flag:
  "http_available (clipboard s) = Some b \<Longrightarrow>
   http_available (clipboard (run_ops env xs s)) = Some b"
  by (induction xs arbitrary: s) (simp_all add: run_op_keeps_flag)

lemma probe_sets_flag:
  "http_available (clipboard (snd (is_http_available env s))) \<noteq> None"
proof (cases "http_available (clipboard s)")
  case None
  then show ?thesis
    unfolding is_http_available_unknown [OF None] probe_unfolded
    by (auto simp: set_http_available_def split: option.split sum.split)
next
  case (Some b)
  then show ?thesis by (simp add: is_http_available_cached)
qed

text \<open>
  C8. The flag is \<^verbatim>\<open>None\<close>, \<^verbatim>\<open>True\<close> or \<^verbatim>\<open>False\<close>. After a call of the probe it is
  not \<^verbatim>\<open>None\<close>. Once it has a value, the probe returns that value and changes nothing
  (no call is made), and the value is still there after any sequence of \<^verbatim>\<open>get\<close>,
  \<^verbatim>\<open>set\<close> and probe calls on the instance.
\<close>

theorem flag_memoized:
  "http_available (clipboard (snd (is_http_available env s))) \<noteq> None
   \<and> (\<forall>b. http_available (clipboard s) = Some b \<longrightarrow>
          is_http_available env s = (Inr b, s)
          \<and> http_available (clipboard (run_ops env xs s)) = Some b)"
  using probe_sets_flag [of env s] is_http_available_cached [of s _ env]
    run_ops_keep_flag [of s _ env xs]
  by blast

theorem flag_memoized_witness:
  "http_available (clipboard (snd (is_http_available env_up (fresh Auto)))) = Some True
   \<and> is_http_available env_up (cached False) = (Inr False, cached False)
   \<and> http_available
        (clipboard (run_ops env_up [Op_get, Op_set ''hi'', Op_probe, Op_get] (cached False)))
       = Some False"
proof -
  have "http_available (clipboard (snd (is_http_available env_up (fresh Auto)))) = Some True"
    by (simp add: probe_env_up)
  moreover have "is_http_available env_up (cached False) = (Inr False, cached False)
      \<and> http_available
           (clipboard (run_ops env_up [Op_get, Op_set ''hi'', Op_probe, Op_get] (cached False)))
          = Some False"
    using flag_memoized [of env_up "cached False" "[Op_get, Op_set ''hi'', Op_probe, Op_get]"]
    by (simp only: cached_simps)
  ultimately show ?thesis by blast
qed


section \<open>Exit codes of the command line\<close>

text \<open>A text of ASCII characters is printed whatever the stream.\<close>

lemma py_print_ascii: "ascii_text v \<Longrightarrow> py_print env v st s = (Inr (), log (Print v st) s)"
  by (simp add: py_print_def)

lemma print_return_ascii:
  "ascii_text v \<Longrightarrow> print_return env v st code s = (Inr code, log (Print v st) s)"
  by (simp add: print_return_def py_print_ascii)

lemma main_get:
  "action a = Action_get \<Longrightarrow>
   main env a s =
     (case get_clipboard env
             (s\<lparr>clipboard := DroidrunClipboard_init (arg_method a) (arg_port a)\<rparr>) of
        (Inl e, s1) \<Rightarrow> main_except env e s1
      | (Inr txt, s1) \<Rightarrow>
          if txt \<noteq> PyNone then print_return env txt Stdout 0 s1
          else print_return env (PyStr ''(Clipboard is empty)'') Stderr 1 s1)"
  by (simp add: main_def Let_def)

text \<open>
  C9. For the action \<^verbatim>\<open>get\<close>: when the facade returns \<^verbatim>\<open>None\<close>, \<^verbatim>\<open>main\<close> prints the
  placeholder to the error stream, nothing to standard output, and returns 1; when the
  facade returns the empty string, \<^verbatim>\<open>main\<close> prints it to standard output and returns 0.
\<close>

theorem main_get_result:
  assumes "action a = Action_get"
  shows "(fst (get_clipboard env
                 (s\<lparr>clipboard := DroidrunClipboard_init (arg_method a) (arg_port a)\<rparr>))
            = Inr PyNone \<longrightarrow>
          main env a s =
            (Inr 1,
             log (Print (PyStr ''(Clipboard is empty)'') Stderr)
               (snd (get_clipboard env
                       (s\<lparr>clipboard := DroidrunClipboard_init (arg_method a) (arg_port a)\<rparr>)))))
       \<and> (fst (get_clipboard env
                   (s\<lparr>clipboard := DroidrunClipboard_init (arg_method a) (arg_port a)\<rparr>))
            = Inr (PyStr []) \<longrightarrow>
          main env a s =
            (Inr 0,
             log (Print (PyStr []) Stdout)
               (snd (get_clipboard env
                       (s\<lparr>clipboard := DroidrunClipboard_init (arg_method a) (arg_port a)\<rparr>)))))"
  by (cases "get_clipboard env
               (s\<lparr>clipboard := DroidrunClipboard_init (arg_method a) (arg_port a)\<rparr>)")
     (simp add: main_get [OF assms] print_return_ascii)

lemma fresh_instance: "(fresh m)\<lparr>clipboard := DroidrunClipboard_init m' 8080\<rparr> = fresh m'"
  by (simp add: fresh_def)

lemma get_adb_env_down: "get_adb env_down (fresh Adb) = (Inr PyNone, log (Subprocess_run query_argv) (fresh Adb))"
  by (simp add: get_adb_def env_down_def sample_env_simps sample_process_simps Let_def
      str_strip_def)

lemma get_adb_env_adb_ok:
  "get_adb env_adb_ok (fresh Adb) = (Inr (PyStr []), log (Subprocess_run query_argv) (fresh Adb))"
proof -
  have "scan_lines env_adb_ok (str_split [newline] (str_strip (success_line @ [newline])))
      = Inr (PyStr [])"
    by code_simp
  then show ?thesis
    by (simp add: get_adb_def env_adb_ok_def sample_env_simps sample_process_simps Let_def)
qed

theorem main_get_result_witness:
  "main env_down cli_get (fresh Auto) =
     (Inr 1,
      \<lparr>clipboard = DroidrunClipboard_init Adb 8080,
       trace = [Subprocess_run query_argv, Print (PyStr ''(Clipboard is empty)'') Stderr]\<rparr>)
   \<and> main env_adb_ok cli_get (fresh Auto) =
     (Inr 0,
      \<lparr>clipboard = DroidrunClipboard_init Adb 8080,
       trace = [Subprocess_run query_argv, Print (PyStr []) Stdout]\<rparr>)"
proof -
  have a: "action cli_get = Action_get" by (simp add: cli_get_def)
  have s0: "(fresh Auto)\<lparr>clipboard := DroidrunClipboard_init (arg_method cli_get)
      (arg_port cli_get)\<rparr> = fresh Adb"
    by (simp add: cli_get_def fresh_instance)
  have none: "get_clipboard env_down (fresh Adb)
      = (Inr PyNone, log (Subprocess_run query_argv) (fresh Adb))"
    by (simp add: get_clipboard_def clipboard_get_def fresh_simps get_adb_env_down)
  have empty: "get_clipboard env_adb_ok (fresh Adb)
      = (Inr (PyStr []), log (Subprocess_run query_argv) (fresh Adb))"
    by (simp add: get_clipboard_def clipboard_get_def fresh_simps get_adb_env_adb_ok)
  have 1: "main env_down cli_get (fresh Auto) =
     (Inr 1, log (Print (PyStr ''(Clipboard is empty)'') Stderr)
               (log (Subprocess_run query_argv) (fresh Adb)))"
    using main_get_result [OF a, of env_down "fresh Auto"] unfolding s0 none by simp
  have 2: "main env_adb_ok cli_get (fresh Auto) =
     (Inr 0, log (Print (PyStr []) Stdout) (log (Subprocess_run query_argv) (fresh Adb)))"
    using main_get_result [OF a, of env_adb_ok "fresh Auto"] unfolding s0 empty by simp
  show ?thesis
    unfolding 1 2 by (simp add: log_def fresh_def)
qed

lemma main_set:
  "action a = Action_set \<Longrightarrow>
   main env a s =
     (case arg_text a of
        None \<Rightarrow>
          (case py_print env
                  (PyStr (''Error: Text argument required for '' @ [quote]
                          @ ''set'' @ [quote] @ '' action'')) Stderr
                  (s\<lparr>clipboard := DroidrunClipboard_init (arg_method a) (arg_port a)\<rparr>) of
             (Inl e, s1) \<Rightarrow> main_except env e s1
           | (Inr u, s1) \<Rightarrow>
               (case py_print_help env s1 of
                  (Inl e, s2) \<Rightarrow> main_except env e s2
                | (Inr u, s2) \<Rightarrow> (Inr 1, s2)))
      | Some t \<Rightarrow>
          (case set_clipboard env t
                  (s\<lparr>clipboard := DroidrunClipboard_init (arg_method a) (arg_port a)\<rparr>) of
             (Inl e, s1) \<Rightarrow> main_except env e s1
           | (Inr success, s1) \<Rightarrow>
               if success
               then print_return env
                      (PyStr (check_mark @ '' Clipboard set successfully (''
                              @ str_nat (length t) @ '' chars)'')) Stdout 0 s1
               else print_return env
                      (PyStr (ballot_x @ '' Failed to set clipboard'')) Stderr 1 s1))"
  by (simp add: main_def Let_def)

text \<open>No call of the facade writes to the terminal: it only adds calls that are not prints.\<close>

lemma trace_is_http_available:
  "\<exists>evs. trace (snd (is_http_available env s)) = trace s @ evs \<and> \<not> list_ex is_print evs"
proof (cases "http_available (clipboard s)")
  case None
  show ?thesis
    unfolding is_http_available_unknown [OF None] probe_unfolded
    by (auto simp: set_http_available_def split: option.split sum.split)
next
  case (Some b)
  then show ?thesis by (simp add: is_http_available_cached)
qed

lemma trace_set_http:
  "\<exists>evs. trace (snd (set_http env t s)) = trace s @ evs \<and> \<not> list_ex is_print evs"
  by (auto simp: set_http_def Let_def log_def split: option.split sum.split)

lemma trace_clipboard_set:
  "\<exists>evs. trace (snd (clipboard_set env t s)) = trace s @ evs \<and> \<not> list_ex is_print evs"
proof -
  obtain r s1 where p: "is_http_available env s = (r, s1)" by (cases "is_http_available env s")
  then obtain evs where evs: "trace s1 = trace s @ evs" "\<not> list_ex is_print evs"
    using trace_is_http_available [of env s] by auto
  obtain evs' where evs': "trace (snd (set_http env t s1)) = trace s1 @ evs'"
      "\<not> list_ex is_print evs'"
    using trace_set_http by blast
  have adb: "trace (snd (set_adb env t s1))
      = trace s1 @ [Subprocess_run [''adb'', ''shell'', insert_cmd (escaped_text t)]]"
    by (rule trace_set_adb)
  have via_probe: "\<exists>evs. trace (snd (case is_http_available env s of
        (Inl e, s1) \<Rightarrow> (Inl e, s1)
      | (Inr b, s1) \<Rightarrow> if b then set_http env t s1 else set_adb env t s1)) = trace s @ evs
      \<and> \<not> list_ex is_print evs"
    using p evs evs' adb by (cases r) auto
  show ?thesis
    unfolding clipboard_set_def
    using via_probe trace_set_http [of env t s] trace_set_adb [of env t s] by auto
qed

text \<open>The prints of \<^verbatim>\<open>main\<close> after the facade's call add prints of values, never the help.\<close>

lemma trace_py_print: "trace (snd (py_print env v st s)) = trace s @ [Print v st]"
  by (simp add: py_print_def log_def split: option.split)

lemma trace_main_except:
  "\<exists>evs. trace (snd (main_except env e s)) = trace s @ evs \<and> Print_help \<notin> set evs"
proof (cases e)
  case (Exception m)
  obtain r s1 where p: "py_print env (PyStr (''Error: '' @ m)) Stderr s = (r, s1)"
    by (cases "py_print env (PyStr (''Error: '' @ m)) Stderr s")
  then have "trace s1 = trace s @ [Print (PyStr (''Error: '' @ m)) Stderr]"
    using trace_py_print [of env "PyStr (''Error: '' @ m)" Stderr s] by simp
  then show ?thesis using Exception p by (cases r) auto
next
  case KeyboardInterrupt
  obtain r s1 where p:
    "py_print env (PyStr ([newline, newline] @ ''Interrupted by user'')) Stderr s = (r, s1)"
    by (cases "py_print env (PyStr ([newline, newline] @ ''Interrupted by user'')) Stderr s")
  then have "trace s1
      = trace s @ [Print (PyStr ([newline, newline] @ ''Interrupted by user'')) Stderr]"
    using trace_py_print [of env "PyStr ([newline, newline] @ ''Interrupted by user'')" Stderr s]
    by simp
  then show ?thesis using KeyboardInterrupt p by (cases r) auto
next
  case (BaseException m)
  then show ?thesis by simp
qed

lemma trace_print_return:
  "\<exists>evs. trace (snd (print_return env v st code s)) = trace s @ evs \<and> Print_help \<notin> set evs"
proof -
  obtain r s1 where p: "py_print env v st s = (r, s1)" by (cases "py_print env v st s")
  then have s1: "trace s1 = trace s @ [Print v st]"
    using trace_py_print [of env v st s] by simp
  show ?thesis
  proof (cases r)
    case (Inl e)
    obtain evs where "trace (snd (main_except env e s1)) = trace s1 @ evs" "Print_help \<notin> set evs"
      using trace_main_except by blast
    then show ?thesis using p Inl s1 by (simp add: print_return_def)
  next
    case (Inr u)
    then show ?thesis using p s1 by (simp add: print_return_def)
  qed
qed

lemma check_mark_not_ascii: "\<not> ascii_text (PyStr (check_mark @ t))"
  by (simp add: check_mark_def)

text \<open>
  C10, as amended. For the action \<^verbatim>\<open>set\<close>: an absent text gives the usage error (the
  message on the error stream, then the help, with no call of the facade before them,
  and exit code 1 when printing the help does not raise); a text that is given, the
  empty string included, never gives the usage error; with the empty string the
  facade's \<^verbatim>\<open>set\<close> is called with the empty string, and when that returns \<^verbatim>\<open>True\<close>: if
  the print of the confirmation does not raise, the confirmation counts 0 characters
  and the exit code is 0; if it raises an \<^verbatim>\<open>Exception\<close> (the stream cannot encode the
  check mark), the error is printed to the error stream and the exit code is 1.
\<close>

theorem main_set_result:
  assumes "action a = Action_set"
  shows "(arg_text a = None \<longrightarrow>
          (\<exists>rest. trace (snd (main env a s))
                    = trace s @ [Print (PyStr (''Error: Text argument required for '' @ [quote]
                                              @ ''set'' @ [quote] @ '' action'')) Stderr,
                                 Print_help] @ rest)
          \<and> (print_help_error env
                (trace s @ [Print (PyStr (''Error: Text argument required for '' @ [quote]
                                          @ ''set'' @ [quote] @ '' action'')) Stderr]) = None
              \<longrightarrow> fst (main env a s) = Inr 1
                \<and> trace (snd (main env a s))
                    = trace s @ [Print (PyStr (''Error: Text argument required for '' @ [quote]
                                              @ ''set'' @ [quote] @ '' action'')) Stderr,
                                 Print_help]))
       \<and> (\<forall>t. arg_text a = Some t \<longrightarrow>
            Print_help \<notin> set (drop (length (trace s)) (trace (snd (main env a s)))))
       \<and> (arg_text a = Some []
            \<and> fst (set_clipboard env []
                     (s\<lparr>clipboard := DroidrunClipboard_init (arg_method a) (arg_port a)\<rparr>))
                = Inr True \<longrightarrow>
          (print_error env
             (trace (snd (set_clipboard env []
                (s\<lparr>clipboard := DroidrunClipboard_init (arg_method a) (arg_port a)\<rparr>))))
             (PyStr (check_mark @ '' Clipboard set successfully (0 chars)'')) Stdout = None
           \<longrightarrow> main env a s =
                 (Inr 0,
                  log (Print (PyStr (check_mark @ '' Clipboard set successfully (0 chars)''))
                         Stdout)
                    (snd (set_clipboard env []
                       (s\<lparr>clipboard := DroidrunClipboard_init (arg_method a) (arg_port a)\<rparr>)))))
          \<and> (\<forall>m. print_error env
                    (trace (snd (set_clipboard env []
                       (s\<lparr>clipboard := DroidrunClipboard_init (arg_method a) (arg_port a)\<rparr>))))
                    (PyStr (check_mark @ '' Clipboard set successfully (0 chars)'')) Stdout
                  = Some (Exception m)
                \<and> ascii_text (PyStr m)
                \<longrightarrow> main env a s =
                      (Inr 1,
                       log (Print (PyStr (''Error: '' @ m)) Stderr)
                         (log (Print (PyStr (check_mark
                                  @ '' Clipboard set successfully (0 chars)'')) Stdout)
                            (snd (set_clipboard env []
                               (s\<lparr>clipboard :=
                                    DroidrunClipboard_init (arg_method a) (arg_port a)\<rparr>)))))))"
proof -
  let ?s0 = "s\<lparr>clipboard := DroidrunClipboard_init (arg_method a) (arg_port a)\<rparr>"
  let ?usage = "PyStr (''Error: Text argument required for '' @ [quote]
                       @ ''set'' @ [quote] @ '' action'')"
  let ?conf = "PyStr (check_mark @ '' Clipboard set successfully (0 chars)'')"
  have usage_ascii: "ascii_text ?usage" by (simp add: quote_def)
  have absent_main: "main env a s =
      (case py_print_help env (log (Print ?usage Stderr) ?s0) of
         (Inl e, s2) \<Rightarrow> main_except env e s2
       | (Inr u, s2) \<Rightarrow> (Inr 1, s2))"
    if "arg_text a = None"
    using that by (simp add: main_set [OF assms] py_print_ascii quote_def)
  have absent_trace: "\<exists>rest. trace (snd (main env a s))
      = trace s @ [Print ?usage Stderr, Print_help] @ rest"
    if none: "arg_text a = None"
  proof (cases "print_help_error env (trace s @ [Print ?usage Stderr])")
    case None
    then have "trace (snd (main env a s)) = trace s @ [Print ?usage Stderr, Print_help] @ []"
      by (simp add: absent_main [OF none] py_print_help_def log_def)
    then show ?thesis by blast
  next
    case (Some e)
    obtain evs where "trace (snd (main_except env e
          (log Print_help (log (Print ?usage Stderr) ?s0))))
        = trace (log Print_help (log (Print ?usage Stderr) ?s0)) @ evs"
      using trace_main_except by blast
    then have "trace (snd (main env a s)) = trace s @ [Print ?usage Stderr, Print_help] @ evs"
      using Some by (simp add: absent_main [OF none] py_print_help_def log_def)
    then show ?thesis by blast
  qed
  have absent_ok: "fst (main env a s) = Inr 1
      \<and> trace (snd (main env a s)) = trace s @ [Print ?usage Stderr, Print_help]"
    if none: "arg_text a = None"
      and "print_help_error env (trace s @ [Print ?usage Stderr]) = None"
    using that(2) by (simp add: absent_main [OF none] py_print_help_def log_def)
  have given: "Print_help \<notin> set (drop (length (trace s)) (trace (snd (main env a s))))"
    if t: "arg_text a = Some t" for t
  proof -
    obtain r s1 where c: "set_clipboard env t ?s0 = (r, s1)"
      by (cases "set_clipboard env t ?s0")
    then obtain evs where evs: "trace s1 = trace s @ evs" "\<not> list_ex is_print evs"
      using trace_clipboard_set [of env t ?s0] by (auto simp: set_clipboard_def)
    then have no_help: "Print_help \<notin> set evs"
      by (auto simp: list_ex_iff)
    have m: "main env a s =
        (case r of
           Inl e \<Rightarrow> main_except env e s1
         | Inr success \<Rightarrow>
             if success
             then print_return env
                    (PyStr (check_mark @ '' Clipboard set successfully (''
                            @ str_nat (length t) @ '' chars)'')) Stdout 0 s1
             else print_return env
                    (PyStr (ballot_x @ '' Failed to set clipboard'')) Stderr 1 s1)"
      using c t by (simp add: main_set [OF assms])
    have "\<exists>evs'. trace (snd (main env a s)) = trace s1 @ evs' \<and> Print_help \<notin> set evs'"
    proof (cases r)
      case (Inl e)
      then show ?thesis unfolding m using trace_main_except [of env e s1] by simp
    next
      case (Inr success)
      then show ?thesis
        unfolding m
        using trace_print_return [of env _ Stdout 0 s1] trace_print_return [of env _ Stderr 1 s1]
        by (cases success) simp_all
    qed
    then show ?thesis using evs(1) no_help by auto
  qed
  have empty_main: "main env a s = print_return env ?conf Stdout 0 (snd (set_clipboard env [] ?s0))"
    if "arg_text a = Some []" and "fst (set_clipboard env [] ?s0) = Inr True"
    using that by (cases "set_clipboard env [] ?s0") (simp add: main_set [OF assms])
  have printed: "main env a s = (Inr 0, log (Print ?conf Stdout) (snd (set_clipboard env [] ?s0)))"
    if "arg_text a = Some []" and "fst (set_clipboard env [] ?s0) = Inr True"
      and "print_error env (trace (snd (set_clipboard env [] ?s0))) ?conf Stdout = None"
    using that(3)
    by (simp add: empty_main [OF that(1,2)] print_return_def py_print_def check_mark_not_ascii)
  have raised: "main env a s =
      (Inr 1, log (Print (PyStr (''Error: '' @ m)) Stderr)
                (log (Print ?conf Stdout) (snd (set_clipboard env [] ?s0))))"
    if "arg_text a = Some []" and "fst (set_clipboard env [] ?s0) = Inr True"
      and "print_error env (trace (snd (set_clipboard env [] ?s0))) ?conf Stdout
           = Some (Exception m)"
      and "ascii_text (PyStr m)" for m
  proof -
    have "ascii_text (PyStr (''Error: '' @ m))" using that(4) by simp
    then show ?thesis
      using that(3)
      by (simp add: empty_main [OF that(1,2)] print_return_def py_print_def
          check_mark_not_ascii py_print_ascii del: ascii_text.simps)
  qed
  show ?thesis using absent_trace absent_ok given printed raised by blast
qed

lemma set_adb_env_down:
  "set_adb env_down [] (fresh Adb) =
     (Inr True,
      log (Subprocess_run [''adb'', ''shell'',
             ''content insert --uri content://com.droidrun.portal/clipboard/set --bind ''
             @ [quote] @ ''text:s:'' @ [quote]]) (fresh Adb))"
  by (simp add: set_adb_def env_down_def sample_env_simps sample_process_simps Let_def
      insert_cmd_def escaped_text_def str_replace_def)

lemma env_down_print:
  "print_error env_down tr v st = None"
  "print_help_error env_down tr = None"
  by (simp_all add: env_down_def sample_env_simps)

lemma env_ascii_stdout_simps:
  "subprocess_run env_ascii_stdout = subprocess_run env_down"
  "print_error env_ascii_stdout tr v st = Some (Exception ascii_codec_error)"
  "print_help_error env_ascii_stdout tr = None"
  by (simp_all add: env_ascii_stdout_def env_down_def sample_env_simps)

lemma set_adb_env_ascii_stdout:
  "set_adb env_ascii_stdout [] (fresh Adb) = set_adb env_down [] (fresh Adb)"
  by (simp add: set_adb_def env_ascii_stdout_simps)

lemma ascii_codec_error_ascii: "ascii_text (PyStr ascii_codec_error)"
  by (simp add: ascii_codec_error_def quote_def backslash_def)

text \<open>
  C10 as stated fails where the standard output cannot encode the check mark of the
  confirmation (encoding \<^verbatim>\<open>ascii\<close>): the facade's \<^verbatim>\<open>set\<close> of the empty string succeeds,
  the print of the confirmation raises inside the \<^verbatim>\<open>try\<close>, and \<^verbatim>\<open>except Exception\<close>
  prints the error and returns 1.
\<close>

theorem main_set_ascii_stdout_counterexample:
  "fst (set_clipboard env_ascii_stdout [] (fresh Adb)) = Inr True
   \<and> main env_ascii_stdout (cli_set (Some [])) (fresh Auto) =
     (Inr 1,
      \<lparr>clipboard = DroidrunClipboard_init Adb 8080,
       trace = [Subprocess_run [''adb'', ''shell'',
                  ''content insert --uri content://com.droidrun.portal/clipboard/set --bind ''
                  @ [quote] @ ''text:s:'' @ [quote]],
                Print (PyStr (check_mark @ '' Clipboard set successfully (0 chars)'')) Stdout,
                Print (PyStr (''Error: '' @ ascii_codec_error)) Stderr]\<rparr>)"
proof -
  have called: "set_clipboard env_ascii_stdout [] (fresh Adb) =
     (Inr True,
      log (Subprocess_run [''adb'', ''shell'',
             ''content insert --uri content://com.droidrun.portal/clipboard/set --bind ''
             @ [quote] @ ''text:s:'' @ [quote]]) (fresh Adb))"
    by (simp add: set_clipboard_def clipboard_set_def fresh_simps set_adb_env_ascii_stdout
        set_adb_env_down)
  have err: "ascii_text (PyStr (''Error: '' @ ascii_codec_error))"
    using ascii_codec_error_ascii by simp
  have "main env_ascii_stdout (cli_set (Some [])) (fresh Auto) =
     (Inr 1,
      log (Print (PyStr (''Error: '' @ ascii_codec_error)) Stderr)
        (log (Print (PyStr (check_mark @ '' Clipboard set successfully (0 chars)'')) Stdout)
           (log (Subprocess_run [''adb'', ''shell'',
             ''content insert --uri content://com.droidrun.portal/clipboard/set --bind ''
             @ [quote] @ ''text:s:'' @ [quote]]) (fresh Adb))))"
    using err
    by (simp add: main_def Let_def cli_set_def fresh_instance called print_return_def
        py_print_def check_mark_not_ascii env_ascii_stdout_simps del: ascii_text.simps)
  then show ?thesis
    using called by (simp add: log_def fresh_def)
qed

theorem main_set_result_witness:
  "main env_down (cli_set (Some [])) (fresh Auto) =
     (Inr 0,
      \<lparr>clipboard = DroidrunClipboard_init Adb 8080,
       trace = [Subprocess_run [''adb'', ''shell'',
                  ''content insert --uri content://com.droidrun.portal/clipboard/set --bind ''
                  @ [quote] @ ''text:s:'' @ [quote]],
                Print (PyStr (check_mark @ '' Clipboard set successfully (0 chars)'')) Stdout]\<rparr>)
   \<and> Print_help \<notin> set (trace (snd (main env_down (cli_set (Some [])) (fresh Auto))))
   \<and> fst (main env_ascii_stdout (cli_set (Some [])) (fresh Auto)) = Inr 1
   \<and> fst (main env_down (cli_set None) (fresh Auto)) = Inr 1
   \<and> trace (snd (main env_down (cli_set None) (fresh Auto)))
       = [Print (PyStr (''Error: Text argument required for '' @ [quote]
                        @ ''set'' @ [quote] @ '' action'')) Stderr,
          Print_help]"
proof -
  have a: "action (cli_set t) = Action_set" for t by (simp add: cli_set_def)
  have arg: "arg_text (cli_set t) = t" for t by (simp add: cli_set_def)
  have s0: "(fresh Auto)\<lparr>clipboard := DroidrunClipboard_init (arg_method (cli_set t))
      (arg_port (cli_set t))\<rparr> = fresh Adb" for t
    by (simp add: cli_set_def fresh_instance)
  have called: "set_clipboard env_down [] (fresh Adb) =
     (Inr True,
      log (Subprocess_run [''adb'', ''shell'',
             ''content insert --uri content://com.droidrun.portal/clipboard/set --bind ''
             @ [quote] @ ''text:s:'' @ [quote]]) (fresh Adb))"
    by (simp add: set_clipboard_def clipboard_set_def fresh_simps set_adb_env_down)
  have called': "set_clipboard env_ascii_stdout [] (fresh Adb)
      = set_clipboard env_down [] (fresh Adb)"
    by (simp add: set_clipboard_def clipboard_set_def fresh_simps set_adb_env_ascii_stdout)
  note r = main_set_result [OF a, where s = "fresh Auto", unfolded arg s0 fresh_simps]
  have printed: "main env_down (cli_set (Some [])) (fresh Auto) =
     (Inr 0,
      log (Print (PyStr (check_mark @ '' Clipboard set successfully (0 chars)'')) Stdout)
        (snd (set_clipboard env_down [] (fresh Adb))))"
    using r [where env = env_down and t1 = "Some []", THEN conjunct2, THEN conjunct2]
    by (simp add: called env_down_print)
  have 1: "main env_down (cli_set (Some [])) (fresh Auto) =
     (Inr 0,
      \<lparr>clipboard = DroidrunClipboard_init Adb 8080,
       trace = [Subprocess_run [''adb'', ''shell'',
                  ''content insert --uri content://com.droidrun.portal/clipboard/set --bind ''
                  @ [quote] @ ''text:s:'' @ [quote]],
                Print (PyStr (check_mark @ '' Clipboard set successfully (0 chars)'')) Stdout]\<rparr>)"
    unfolding printed called by (simp add: log_def fresh_def)
  have 2: "Print_help \<notin> set (trace (snd (main env_down (cli_set (Some [])) (fresh Auto))))"
    using r [where env = env_down and t1 = "Some []", THEN conjunct2, THEN conjunct1] by simp
  have "main env_ascii_stdout (cli_set (Some [])) (fresh Auto) =
     (Inr 1,
      log (Print (PyStr (''Error: '' @ ascii_codec_error)) Stderr)
        (log (Print (PyStr (check_mark @ '' Clipboard set successfully (0 chars)'')) Stdout)
           (snd (set_clipboard env_ascii_stdout [] (fresh Adb)))))"
    using r [where env = env_ascii_stdout and t1 = "Some []", THEN conjunct2, THEN conjunct2]
      ascii_codec_error_ascii
    by (simp add: called' called env_ascii_stdout_simps del: ascii_text.simps)
  then have 3: "fst (main env_ascii_stdout (cli_set (Some [])) (fresh Auto)) = Inr 1"
    by simp
  have 4: "fst (main env_down (cli_set None) (fresh Auto)) = Inr 1
    \<and> trace (snd (main env_down (cli_set None) (fresh Auto)))
       = [Print (PyStr (''Error: Text argument required for '' @ [quote]
                        @ ''set'' @ [quote] @ '' action'')) Stderr,
          Print_help]"
    using r [where env = env_down and t1 = None, THEN conjunct1]
    by (simp add: env_down_print)
  show ?thesis using 1 2 3 4 by blast
qed

end
